theory Spec2Isabelle
  imports Complex_Main
begin

section \<open>Strings\<close>

text \<open>
  JavaScript strings are modelled as \<open>string\<close> (a list of 8-bit characters).  The
  functions below are the ones the services use on identifiers, URLs and commands; on
  the ASCII range they agree with the JavaScript built-ins they stand for.
\<close>

definition lower_char :: "char \<Rightarrow> char" where
  "lower_char c =
     (if 65 \<le> (of_char c :: nat) \<and> (of_char c :: nat) \<le> 90
      then char_of ((of_char c :: nat) + 32) else c)"

definition toLowerCase :: "string \<Rightarrow> string" where
  "toLowerCase s = map lower_char s"

definition slug_char :: "char \<Rightarrow> bool" where
  "slug_char c =
     ((97 \<le> (of_char c :: nat) \<and> (of_char c :: nat) \<le> 122)
      \<or> (48 \<le> (of_char c :: nat) \<and> (of_char c :: nat) \<le> 57)
      \<or> c = CHR ''-'')"

text \<open>\<^verbatim>\<open>s.toLowerCase().replace(/[^a-z0-9-]/g, '-')\<close>\<close>

definition slugify :: "string \<Rightarrow> string" where
  "slugify s = map (\<lambda>c. if slug_char c then c else CHR ''-'') (toLowerCase s)"

text \<open>\<^verbatim>\<open>s.includes(p)\<close>\<close>

fun str_includes :: "string \<Rightarrow> string \<Rightarrow> bool" where
  "str_includes [] p = (p = [])"
| "str_includes (c # cs) p = (take (length p) (c # cs) = p \<or> str_includes cs p)"

text \<open>\<^verbatim>\<open>s.replace(p, r)\<close> with a string pattern: the first occurrence only.\<close>

fun replace_first :: "string \<Rightarrow> string \<Rightarrow> string \<Rightarrow> string" where
  "replace_first p r [] = (if p = [] then r else [])"
| "replace_first p r (c # cs) =
     (if take (length p) (c # cs) = p then r @ drop (length p) (c # cs)
      else c # replace_first p r cs)"

text \<open>Decimal rendering of a number inside a template literal.\<close>

definition digit_char :: "nat \<Rightarrow> char" where
  "digit_char d = char_of (48 + d)"

fun digits_of :: "nat \<Rightarrow> nat \<Rightarrow> string" where
  "digits_of 0 n = []"
| "digits_of (Suc fuel) n =
     (if n < 10 then [digit_char n] else digits_of fuel (n div 10) @ [digit_char (n mod 10)])"

definition string_of_nat :: "nat \<Rightarrow> string" where
  "string_of_nat n = digits_of (Suc n) n"

section \<open>JSON values\<close>

text \<open>
  Values of type \<^verbatim>\<open>any\<close> that come out of \<^verbatim>\<open>JSON.parse\<close> or are built as object
  literals.  Numbers are the decimal literals of the source, kept exact.
\<close>

datatype json =
  JNull
| JBool bool
| JNum rat
| JStr string
| JArr "json list"
| JObj "(string \<times> json) list"






section \<open>The record store\<close>

text \<open>
  The relational store behind \<^verbatim>\<open>PrismaService\<close> is a state record of tables.  Rows carry
  the columns of \<^verbatim>\<open>migration.sql\<close> that the services read or write.  Primary keys are
  generated by the store; they are numbers drawn from a counter, rendered with
  \<^const>\<open>string_of_nat\<close> where a message quotes them.  \<^verbatim>\<open>new Date()\<close> and the column
  default \<^verbatim>\<open>CURRENT_TIMESTAMP\<close> read one clock, a number of milliseconds, which moves
  forward by an arbitrary amount after every reading.
\<close>

record log_entry =
  timestamp :: nat
  message :: string
  level :: string

text \<open>
  \<^verbatim>\<open>buildSettings: any\<close>: the fields \<^verbatim>\<open>detectBuildSettings\<close> looks at, each possibly
  absent.  \<open>framework_name\<close> is \<^verbatim>\<open>buildSettings.framework.name\<close>.
\<close>

record build_settings =
  buildCommand :: "string option"
  outputDirectory :: "string option"
  installCommand :: "string option"
  framework_name :: "string option"
  bs_name :: "string option"
  hasPackageJson :: "bool option"

record vercel_result =
  vr_url :: string
  vr_dashboardUrl :: "string option"

record netlify_result =
  nr_id :: string
  nr_url :: string
  nr_adminUrl :: "string option"
  nr_status :: string
  nr_deployId :: "string option"
  nr_message :: "string option"
  nr_automated :: "bool option"
  nr_gitConnected :: "bool option"
  nr_buildLogs :: "string list option"
  nr_deployHook :: "string option"
  nr_setupInstructions :: "string list option"
  nr_isDemo :: "bool option"
  nr_error :: "string option"
  nr_demoMessage :: "string option"

datatype metadata =
  VercelMeta vercel_result
| NetlifyMeta netlify_result bool

record deployment =
  dep_id :: nat
  projectId :: nat
  branch :: string
  commitSha :: string
  status :: string
  provider :: string
  environment :: string
  url :: "string option"
  configuration :: "build_settings option"
  metadata :: "metadata option"
  logs :: "log_entry list"
  startedAt :: nat
  completedAt :: "nat option"
  createdBy :: string

record member =
  m_userId :: string
  m_role :: string
  m_joinedAt :: nat

record organization =
  org_id :: nat
  org_name :: string
  org_slug :: string
  members :: "member list"

record project =
  proj_id :: nat
  proj_name :: string
  proj_slug :: string
  proj_description :: string
  organizationId :: nat

text \<open>
  The \<^verbatim>\<open>encryptedToken\<close> column holds \<^verbatim>\<open>JSON.stringify\<close> of an object with the fields
  below, and every reader applies \<^verbatim>\<open>JSON.parse\<close> to it first; the row keeps the object.
\<close>

record user_info =
  ui_id :: string
  ui_email :: string
  ui_name :: string

record token_data =
  access_token :: string
  demo :: bool
  userInfo :: "user_info option"

record integration =
  int_id :: nat
  int_userId :: string
  int_provider :: string
  externalId :: string
  encryptedToken :: token_data
  scopes :: "string list"
  int_updatedAt :: nat

text \<open>Calls that leave the process for a hosting provider, in the order they are made.\<close>

record vercel_params =
  vp_token :: string
  vp_repositoryUrl :: string
  vp_projectName :: string
  vp_buildCommand :: string
  vp_outputDirectory :: string
  vp_installCommand :: string

record netlify_params =
  np_token :: string
  np_repositoryUrl :: string
  np_siteName :: string
  np_buildCommand :: string
  np_publishDirectory :: string

datatype adapter_call =
  VercelCreateDeployment vercel_params
| NetlifyCreateSiteFromRepo netlify_params
| VercelValidateToken string
| NetlifyValidateToken string

text \<open>A callback handed to \<^verbatim>\<open>setTimeout\<close>: the update it will apply to one record.\<close>

record timer =
  t_target :: nat
  t_status :: string
  t_url :: string
  t_metadata :: "metadata option"
  t_messages :: "(string \<times> string) list"

record repository =
  repo_id :: nat
  fullName :: string

record repository_analysis =
  ra_repositoryId :: nat
  ra_branch :: string
  ra_commitSha :: string
  frameworkName :: "json option"
  frameworkVersion :: "json option"
  confidenceScore :: "json option"
  buildConfig :: "json option"
  recommendations :: json

text \<open>
  One entry per write to a deployment row (its creation or an update), in the order the
  writes happen: the row's key and the status and log the write stores.  The trace is
  the history of the row; it is not a table of the store.
\<close>

record row_write =
  w_target :: nat
  w_status :: string
  w_logs :: "log_entry list"

record state =
  organizations :: "organization list"
  projects :: "project list"
  deployments :: "deployment list"
  integrations :: "integration list"
  repositories :: "repository list"
  repositoryAnalyses :: "repository_analysis list"
  timers :: "timer list"
  calls :: "adapter_call list"
  writes :: "row_write list"
  next_id :: nat
  clock :: nat

datatype error = Error string

section \<open>Reading the clock\<close>

definition tick :: "(nat \<Rightarrow> nat) \<Rightarrow> state \<Rightarrow> state" where
  "tick adv st = st\<lparr>clock := clock st + adv (clock st)\<rparr>"

text \<open>
  An array literal of log entries evaluates \<^verbatim>\<open>new Date()\<close> once per entry, left to
  right.
\<close>

fun stamp :: "(nat \<Rightarrow> nat) \<Rightarrow> (string \<times> string) list \<Rightarrow> state \<Rightarrow> log_entry list \<times> state" where
  "stamp adv [] st = ([], st)"
| "stamp adv ((m, l) # rest) st =
     (let e = \<lparr>timestamp = clock st, message = m, level = l\<rparr>;
          (es, st') = stamp adv rest (tick adv st)
      in (e # es, st'))"

section \<open>Store operations\<close>

text \<open>\<^verbatim>\<open>prisma.deployment.create\<close>: the store assigns the key and \<^verbatim>\<open>started_at\<close>.\<close>

definition deployment_create ::
  "(nat \<Rightarrow> nat) \<Rightarrow> deployment \<Rightarrow> state \<Rightarrow> deployment \<times> state" where
  "deployment_create adv d st =
     (let r = d\<lparr>dep_id := next_id st, startedAt := clock st\<rparr>
      in (r, tick adv
               (st\<lparr>deployments := deployments st @ [r],
                   writes := writes st @
                     [\<lparr>w_target = next_id st, w_status = status d, w_logs = logs d\<rparr>],
                   next_id := Suc (next_id st)\<rparr>)))"

text \<open>
  \<^verbatim>\<open>prisma.deployment.update\<close> with the fields every update of the services sets:
  the given values replace the stored ones, \<^verbatim>\<open>logs\<close> included; \<^verbatim>\<open>metadata\<close> is set
  only when given.
\<close>

record update_data =
  u_status :: string
  u_url :: "string option"
  u_completedAt :: "nat option"
  u_metadata :: "metadata option"
  u_logs :: "log_entry list"

definition apply_update :: "update_data \<Rightarrow> deployment \<Rightarrow> deployment" where
  "apply_update u d =
     d\<lparr>status := u_status u,
       url := (case u_url u of Some v \<Rightarrow> Some v | None \<Rightarrow> url d),
       completedAt := (case u_completedAt u of Some t \<Rightarrow> Some t | None \<Rightarrow> completedAt d),
       metadata := (case u_metadata u of Some m \<Rightarrow> Some m | None \<Rightarrow> metadata d),
       logs := u_logs u\<rparr>"

definition deployment_update :: "nat \<Rightarrow> update_data \<Rightarrow> state \<Rightarrow> state" where
  "deployment_update i u st =
     st\<lparr>deployments := map (\<lambda>d. if dep_id d = i then apply_update u d else d) (deployments st),
        writes := writes st @ [\<lparr>w_target = i, w_status = u_status u, w_logs = u_logs u\<rparr>]\<rparr>"

text \<open>\<^verbatim>\<open>findFirst\<close> with \<^verbatim>\<open>orderBy: { startedAt: 'desc' }\<close>: a row of greatest
  \<open>startedAt\<close>; among equal ones the store is free to choose, here the first in the table.\<close>

fun latest :: "deployment list \<Rightarrow> deployment option" where
  "latest [] = None"
| "latest (d # ds) =
     (case latest ds of
        None \<Rightarrow> Some d
      | Some e \<Rightarrow> if startedAt d < startedAt e then Some e else Some d)"

section \<open>Rollback\<close>

definition NoPriorDeployment :: error where
  "NoPriorDeployment = Error ''No previous deployment found for rollback''"

definition DeploymentNotFound :: error where
  "DeploymentNotFound = Error ''Deployment not found''"

definition find_deployment :: "nat \<Rightarrow> string \<Rightarrow> state \<Rightarrow> deployment option" where
  "find_deployment deploymentId userId st =
     find (\<lambda>d. dep_id d = deploymentId \<and> createdBy d = userId) (deployments st)"

definition is_prior :: "deployment \<Rightarrow> deployment \<Rightarrow> bool" where
  "is_prior dep p \<longleftrightarrow>
     projectId p = projectId dep \<and> status p = ''deployed'' \<and> startedAt p < startedAt dep"

definition find_previous :: "deployment \<Rightarrow> state \<Rightarrow> deployment option" where
  "find_previous dep st = latest (filter (is_prior dep) (deployments st))"

definition rollbackDeployment ::
  "(nat \<Rightarrow> nat) \<Rightarrow> nat \<Rightarrow> string \<Rightarrow> state \<Rightarrow> (error + deployment) \<times> state" where
  "rollbackDeployment adv deploymentId userId st =
     (case find_deployment deploymentId userId st of
        None \<Rightarrow> (Inl DeploymentNotFound, st)
      | Some dep \<Rightarrow>
         (case find_previous dep st of
            None \<Rightarrow> (Inl NoPriorDeployment, st)
          | Some previousDeployment \<Rightarrow>
             (let (entries, st1) =
                    stamp adv
                      [(''Rolled back to deployment '' @ string_of_nat (dep_id previousDeployment),
                        ''info'')] st;
                  (rollback, st2) =
                    deployment_create adv
                      \<lparr>dep_id = 0,
                       projectId = projectId dep,
                       branch = branch previousDeployment,
                       commitSha = commitSha previousDeployment,
                       status = ''deployed'',
                       provider = provider dep,
                       environment = environment dep,
                       url = url previousDeployment,
                       configuration = configuration previousDeployment,
                       metadata = None,
                       logs = entries,
                       startedAt = 0,
                       completedAt = None,
                       createdBy = userId\<rparr> st1
              in (Inr rollback, st2))))"


section \<open>Repository analysis\<close>











section \<open>The Netlify adapter\<close>

text \<open>
  \<^verbatim>\<open>url.match(/github\.com\/([^\/]+)\/([^\/]+)/)\<close>: the leftmost place where
  \<^verbatim>\<open>github.com/\<close> is followed by a non-empty run without a slash, a slash, and a second
  such run; both runs are greedy.
\<close>

definition match_at :: "string \<Rightarrow> (string \<times> string) option" where
  "match_at s =
     (if take 11 s = ''github.com/'' then
        (let rest = drop 11 s;
             owner = takeWhile (\<lambda>c. c \<noteq> CHR ''/'') rest;
             rest2 = dropWhile (\<lambda>c. c \<noteq> CHR ''/'') rest
         in if owner = [] \<or> rest2 = [] then None
            else (let repo = takeWhile (\<lambda>c. c \<noteq> CHR ''/'') (tl rest2)
                  in if repo = [] then None else Some (owner, repo)))
      else None)"

fun repoMatch :: "string \<Rightarrow> (string \<times> string) option" where
  "repoMatch [] = None"
| "repoMatch (c # cs) =
     (case match_at (c # cs) of Some r \<Rightarrow> Some r | None \<Rightarrow> repoMatch cs)"

text \<open>
  What one \<^verbatim>\<open>fetch\<close> and the reading of its body come to: the request is rejected
  (an exception with a message), the response is not \<^verbatim>\<open>ok\<close> (with its text), the
  response is \<^verbatim>\<open>ok\<close> but its body cannot be read (an exception), or the body.
\<close>

datatype 'a fetched =
  Rejected string
| Not_ok string
| Unreadable string
| Body 'a

record site =
  site_id :: string
  site_url :: "string option"
  site_admin_url :: "string option"

record hook =
  hook_id :: string
  hook_url :: string

text \<open>
  The outside world as the adapter sees it, one function per call site, each taking what
  the request carries.  The two \<^verbatim>\<open>POST /sites\<close> and the two \<^verbatim>\<open>POST build_hooks\<close> are
  separate requests and may fare differently.
\<close>

record netlify_env =
  github_repo_info :: "string \<Rightarrow> string \<Rightarrow> string fetched"
  create_site :: "string \<Rightarrow> string \<Rightarrow> site fetched"
  create_hook :: "string \<Rightarrow> string \<Rightarrow> string \<Rightarrow> hook fetched"
  github_zip :: "string \<Rightarrow> string \<Rightarrow> string \<Rightarrow> unit fetched"
  upload_deploy :: "string \<Rightarrow> string \<Rightarrow> string fetched"
  create_site_fallback :: "string \<Rightarrow> string \<Rightarrow> site fetched"
  create_hook_fallback :: "string \<Rightarrow> string \<Rightarrow> hook fetched"

definition getRepositoryDefaultBranch :: "netlify_env \<Rightarrow> string \<Rightarrow> string \<Rightarrow> string" where
  "getRepositoryDefaultBranch env owner repo =
     (case github_repo_info env owner repo of
        Body defaultBranch \<Rightarrow> defaultBranch
      | Not_ok t \<Rightarrow> ''main''
      | Rejected m \<Rightarrow> ''main''
      | Unreadable m \<Rightarrow> ''main'')"

record step_result =
  success :: bool
  sr_deployId :: "string option"
  sr_logs :: "string list option"

definition robot :: string where
  "robot = [CHR 0xF0, CHR 0x9F, CHR 0xA4, CHR 0x96]"

definition rocket :: string where
  "rocket = [CHR 0xF0, CHR 0x9F, CHR 0x9A, CHR 0x80]"

definition warning_sign :: string where
  "warning_sign = [CHR 0xE2, CHR 0x9A, CHR 0xA0, CHR 0xEF, CHR 0xB8, CHR 0x8F]"

text \<open>\<^verbatim>\<open>createGitHubActionsWorkflow\<close> builds a text and instructions; nothing in it throws.\<close>

definition createGitHubActionsWorkflow :: "bool \<times> string list" where
  "createGitHubActionsWorkflow =
     (True,
      [robot @ '' GitHub Actions workflow created!'',
       ''To enable automated deployment:'',
       ''1. Create file: .github/workflows/deploy.yml'',
       ''2. Copy the workflow content provided'',
       ''3. Commit and push to your repository'',
       ''4. Future pushes will auto-deploy!''])"

definition connectGitRepository ::
  "netlify_env \<Rightarrow> string \<Rightarrow> string \<Rightarrow> string \<Rightarrow> string \<Rightarrow> string \<Rightarrow> step_result" where
  "connectGitRepository env siteId token owner repo br =
     (case create_hook env siteId token br of
        Body h \<Rightarrow>
          (let (ok, logs) = createGitHubActionsWorkflow
           in \<lparr>success = ok, sr_deployId = Some (hook_id h),
               sr_logs = Some ([''Deploy hook created for automated deployment'',
                                ''Hook URL: '' @ hook_url h] @ logs)\<rparr>)
      | Not_ok t \<Rightarrow>
          \<lparr>success = False, sr_deployId = None,
           sr_logs = Some [''GitHub Actions setup error: Failed to create deploy hook'']\<rparr>
      | Rejected m \<Rightarrow>
          \<lparr>success = False, sr_deployId = None,
           sr_logs = Some [''GitHub Actions setup error: '' @ m]\<rparr>
      | Unreadable m \<Rightarrow>
          \<lparr>success = False, sr_deployId = None,
           sr_logs = Some [''GitHub Actions setup error: '' @ m]\<rparr>)"

definition deployFromGitHubZip ::
  "netlify_env \<Rightarrow> string \<Rightarrow> string \<Rightarrow> string \<Rightarrow> string \<Rightarrow> string \<Rightarrow> step_result" where
  "deployFromGitHubZip env siteId token owner repo br =
     (case github_zip env owner repo br of
        Rejected m \<Rightarrow> \<lparr>success = False, sr_deployId = None, sr_logs = Some [''Error: '' @ m]\<rparr>
      | Not_ok t \<Rightarrow>
          \<lparr>success = False, sr_deployId = None,
           sr_logs = Some [''Error: Failed to fetch repository zip: '' @ t]\<rparr>
      | other \<Rightarrow>
         (case upload_deploy env siteId token of
            Rejected m \<Rightarrow> \<lparr>success = False, sr_deployId = None, sr_logs = Some [''Error: '' @ m]\<rparr>
          | Not_ok t \<Rightarrow>
              \<lparr>success = False, sr_deployId = None, sr_logs = Some [''Deployment failed: '' @ t]\<rparr>
          | Unreadable m \<Rightarrow>
              \<lparr>success = False, sr_deployId = None, sr_logs = Some [''Error: '' @ m]\<rparr>
          | Body deployId \<Rightarrow>
              \<lparr>success = True, sr_deployId = Some deployId,
               sr_logs = Some [''Repository zip downloaded successfully'',
                               ''Deployment uploaded to Netlify'',
                               ''Deployment ID: '' @ deployId,
                               ''Build process started automatically'']\<rparr>))"

text \<open>\<^verbatim>\<open>site.url || `https://${siteName}.netlify.app`\<close>\<close>

definition site_url_or :: "site \<Rightarrow> string \<Rightarrow> string" where
  "site_url_or s siteName =
     (case site_url s of
        Some u \<Rightarrow> if u = [] then ''https://'' @ siteName @ ''.netlify.app'' else u
      | None \<Rightarrow> ''https://'' @ siteName @ ''.netlify.app'')"

definition demo_result :: "nat \<Rightarrow> string \<Rightarrow> netlify_result" where
  "demo_result now siteName =
     \<lparr>nr_id = ''demo-'' @ string_of_nat now,
      nr_url = ''https://'' @ siteName @ ''-demo.netlify.app'',
      nr_adminUrl = Some (''https://app.netlify.com/sites/'' @ siteName @ ''-demo''),
      nr_status = ''github_access_error'',
      nr_deployId = None,
      nr_message = None,
      nr_automated = None,
      nr_gitConnected = None,
      nr_buildLogs = None,
      nr_deployHook = None,
      nr_setupInstructions =
        Some [''1. Go to Netlify dashboard'',
              ''2. Connect your GitHub account in Settings'',
              ''3. Authorize repository access'',
              ''4. Try deploying again''],
      nr_isDemo = Some True,
      nr_error = Some ''GitHub access rights needed'',
      nr_demoMessage =
        Some ''GitHub access error. You need to authorize Netlify to access your GitHub repositories.''\<rparr>"

definition hook_result :: "site \<Rightarrow> string \<Rightarrow> string option \<Rightarrow> netlify_result" where
  "hook_result s siteName deployHookUrl =
     \<lparr>nr_id = site_id s,
      nr_url = site_url_or s siteName,
      nr_adminUrl = site_admin_url s,
      nr_status = ''deploy_hook_created'',
      nr_deployId = None,
      nr_message =
        Some ''Site created! Use deploy hook or connect GitHub manually in Netlify dashboard.'',
      nr_automated = None,
      nr_gitConnected = None,
      nr_buildLogs = None,
      nr_deployHook = deployHookUrl,
      nr_setupInstructions =
        Some [''1. Site created successfully in Netlify'',
              ''2. Go to Netlify dashboard to connect GitHub repo'',
              ''3. Or use the deploy hook for manual deployments'',
              ''4. Deploy hook URL: '' @
                 (case deployHookUrl of
                    Some u \<Rightarrow> if u = [] then ''Check Netlify dashboard'' else u
                  | None \<Rightarrow> ''Check Netlify dashboard'')],
      nr_isDemo = None,
      nr_error = None,
      nr_demoMessage = None\<rparr>"

text \<open>The \<^verbatim>\<open>catch\<close> block of \<^verbatim>\<open>createSiteFromRepo\<close>: a second site, else the demo answer.\<close>

definition fallback_site :: "netlify_env \<Rightarrow> nat \<Rightarrow> string \<Rightarrow> string \<Rightarrow> netlify_result" where
  "fallback_site env now token siteName =
     (case create_site_fallback env token siteName of
        Body s \<Rightarrow>
          (case create_hook_fallback env (site_id s) token of
             Body h \<Rightarrow> hook_result s siteName (Some (hook_url h))
           | Not_ok t \<Rightarrow> hook_result s siteName None
           | Rejected m \<Rightarrow> demo_result now siteName
           | Unreadable m \<Rightarrow> demo_result now siteName)
      | other \<Rightarrow> demo_result now siteName)"

definition createSiteFromRepo :: "netlify_env \<Rightarrow> nat \<Rightarrow> netlify_params \<Rightarrow> error + netlify_result" where
  "createSiteFromRepo env now params =
     (case repoMatch (np_repositoryUrl params) of
        None \<Rightarrow> Inl (Error ''Invalid GitHub repository URL'')
      | Some (owner, repo) \<Rightarrow>
         (let repoName = replace_first ''.git'' [] repo;
              defaultBranch = getRepositoryDefaultBranch env owner repoName;
              siteName = slugify (np_siteName params)
          in case create_site env (np_token params) siteName of
               Body s \<Rightarrow>
                 (let gitResult =
                        connectGitRepository env (site_id s) (np_token params) owner repoName
                          defaultBranch
                  in if success gitResult then
                       Inr \<lparr>nr_id = site_id s,
                            nr_url = site_url_or s siteName,
                            nr_adminUrl = site_admin_url s,
                            nr_status = ''deploying'',
                            nr_deployId = sr_deployId gitResult,
                            nr_message =
                              Some (rocket @ '' Git repository connected! Continuous deployment enabled!''),
                            nr_automated = Some True,
                            nr_gitConnected = Some True,
                            nr_buildLogs = Some (case sr_logs gitResult of Some l \<Rightarrow> l | None \<Rightarrow> []),
                            nr_deployHook = None,
                            nr_setupInstructions = None,
                            nr_isDemo = None,
                            nr_error = None,
                            nr_demoMessage = None\<rparr>
                     else
                       (let deployResult =
                              deployFromGitHubZip env (site_id s) (np_token params) owner repoName
                                defaultBranch
                        in Inr \<lparr>nr_id = site_id s,
                                nr_url = site_url_or s siteName,
                                nr_adminUrl = site_admin_url s,
                                nr_status =
                                  (if success deployResult then ''deploying'' else ''deploy_failed''),
                                nr_deployId = sr_deployId deployResult,
                                nr_message =
                                  Some (if success deployResult
                                        then warning_sign @ '' Manual deployment started (Git connection failed)''
                                        else ''Site created but deployment failed. Check logs.''),
                                nr_automated = Some True,
                                nr_gitConnected = Some False,
                                nr_buildLogs =
                                  Some (case sr_logs deployResult of Some l \<Rightarrow> l | None \<Rightarrow> []),
                                nr_deployHook = None,
                                nr_setupInstructions = None,
                                nr_isDemo = None,
                                nr_error = None,
                                nr_demoMessage = None\<rparr>))
             | other \<Rightarrow> Inr (fallback_site env now (np_token params) siteName)))"

section \<open>The deployment service\<close>

text \<open>
  The services see the outside world through \<open>env\<close>: how far the clock moves between
  two readings, what the Vercel adapter's \<^verbatim>\<open>createDeployment\<close> answers (\<open>Inl\<close> is the
  message of the exception it throws), the requests of the Netlify adapter, and the two
  \<^verbatim>\<open>validateToken\<close> calls (\<open>Inl\<close> is the \<^verbatim>\<open>error\<close> of an invalid result).  The store
  itself is reliable: a read or write of the store does not throw, and its uniqueness
  constraints are not modelled.
\<close>

record env =
  advance :: "nat \<Rightarrow> nat"
  vercel_createDeployment :: "vercel_params \<Rightarrow> string + vercel_result"
  netlify :: netlify_env
  vercel_validateToken :: "string \<Rightarrow> string + user_info"
  netlify_validateToken :: "string \<Rightarrow> string + user_info"

record deploy_params =
  dp_userId :: string
  dp_projectId :: string
  dp_repositoryUrl :: string
  dp_branch :: string
  dp_buildSettings :: "build_settings option"
  dp_githubToken :: string

text \<open>
  What \<^verbatim>\<open>deployToVercel\<close> and \<^verbatim>\<open>deployToNetlify\<close> return, the nested
  \<^verbatim>\<open>deployment\<close> object flattened; a field one of them does not set is \<open>None\<close>.
\<close>

record deploy_response =
  r_success :: "bool option"
  r_error :: "string option"
  r_message :: string
  r_id :: nat
  r_status :: string
  r_provider :: string
  r_isDemo :: "bool option"
  r_url :: "string option"
  r_setupUrl :: "string option"

definition party :: string where
  "party = [CHR 0xF0, CHR 0x9F, CHR 0x8E, CHR 0x89]"

definition chart :: string where
  "chart = [CHR 0xF0, CHR 0x9F, CHR 0x93, CHR 0x8A]"

definition cross_mark :: string where
  "cross_mark = [CHR 0xE2, CHR 0x9D, CHR 0x8C]"

definition check_mark :: string where
  "check_mark = [CHR 0xE2, CHR 0x9C, CHR 0x85]"

definition link_sign :: string where
  "link_sign = [CHR 0xF0, CHR 0x9F, CHR 0x94, CHR 0x97]"

definition bullseye :: string where
  "bullseye = [CHR 0xF0, CHR 0x9F, CHR 0x8E, CHR 0xAF]"

definition clipboard :: string where
  "clipboard = [CHR 0xF0, CHR 0x9F, CHR 0x93, CHR 0x8B]"

text \<open>\<^verbatim>\<open>a || d\<close> on a string that may be absent: the empty string is falsy.\<close>

definition str_or :: "string option \<Rightarrow> string \<Rightarrow> string" where
  "str_or a d = (case a of Some v \<Rightarrow> if v = [] then d else v | None \<Rightarrow> d)"

record smart_settings =
  ss_buildCommand :: string
  ss_outputDirectory :: string
  ss_installCommand :: string

definition detected_framework :: "build_settings option \<Rightarrow> string" where
  "detected_framework bs =
     str_or (case bs of Some b \<Rightarrow> framework_name b | None \<Rightarrow> None)
       (str_or (case bs of Some b \<Rightarrow> bs_name b | None \<Rightarrow> None)
          (case (case bs of Some b \<Rightarrow> buildCommand b | None \<Rightarrow> None) of
             Some c \<Rightarrow>
               if str_includes c ''next'' then ''next.js''
               else if str_includes c ''gatsby'' then ''gatsby'' else ''react''
           | None \<Rightarrow> ''react''))"

definition detectBuildSettings :: "build_settings option \<Rightarrow> smart_settings" where
  "detectBuildSettings bs =
     (let detectedSettings =
            \<lparr>ss_buildCommand =
               str_or (case bs of Some b \<Rightarrow> buildCommand b | None \<Rightarrow> None) ''npm run build'',
             ss_outputDirectory =
               str_or (case bs of Some b \<Rightarrow> outputDirectory b | None \<Rightarrow> None) ''dist'',
             ss_installCommand =
               str_or (case bs of Some b \<Rightarrow> installCommand b | None \<Rightarrow> None) ''npm install''\<rparr>;
          framework = detected_framework bs
      in if framework \<noteq> [] then
           (let frameworkLower = toLowerCase framework
            in if frameworkLower = ''react'' \<or> frameworkLower = ''create-react-app''
                 then detectedSettings\<lparr>ss_outputDirectory := ''build''\<rparr>
               else if frameworkLower = ''next.js'' \<or> frameworkLower = ''nextjs''
                 then detectedSettings\<lparr>ss_outputDirectory := ''.next'',
                                       ss_buildCommand := ''npm run build''\<rparr>
               else if frameworkLower = ''vite''
                 then detectedSettings\<lparr>ss_outputDirectory := ''dist''\<rparr>
               else if frameworkLower = ''gatsby''
                 then detectedSettings\<lparr>ss_outputDirectory := ''public''\<rparr>
               else if frameworkLower = ''nuxt''
                 then detectedSettings\<lparr>ss_outputDirectory := ''dist''\<rparr>
               else if str_includes (ss_buildCommand detectedSettings) ''next''
                 then detectedSettings\<lparr>ss_outputDirectory := ''.next''\<rparr>
               else if str_includes (ss_buildCommand detectedSettings) ''gatsby''
                 then detectedSettings\<lparr>ss_outputDirectory := ''public''\<rparr>
               else detectedSettings\<lparr>ss_outputDirectory := ''build''\<rparr>)
         else if (case bs of Some b \<Rightarrow> hasPackageJson b | None \<Rightarrow> None) = Some False
           then detectedSettings\<lparr>ss_buildCommand := ''# No build required'',
                                 ss_outputDirectory := ''./''\<rparr>
         else detectedSettings\<lparr>ss_outputDirectory := ''build''\<rparr>)"

text \<open>The project named by the request, created with a personal organization when needed.\<close>

definition find_or_create_organization ::
  "(nat \<Rightarrow> nat) \<Rightarrow> deploy_params \<Rightarrow> state \<Rightarrow> organization \<times> state" where
  "find_or_create_organization adv dp st =
     (case find (\<lambda>org. \<exists>m \<in> set (members org). m_userId m = dp_userId dp) (organizations st) of
        Some org \<Rightarrow> (org, st)
      | None \<Rightarrow>
         (let org = \<lparr>org_id = next_id st, org_name = ''Personal'',
                     org_slug = ''personal-'' @ dp_userId dp,
                     members = [\<lparr>m_userId = dp_userId dp, m_role = ''owner'',
                                 m_joinedAt = clock st\<rparr>]\<rparr>
          in (org, tick adv (st\<lparr>organizations := organizations st @ [org],
                                 next_id := Suc (next_id st)\<rparr>))))"

definition find_or_create_project ::
  "(nat \<Rightarrow> nat) \<Rightarrow> deploy_params \<Rightarrow> state \<Rightarrow> project \<times> state" where
  "find_or_create_project adv dp st =
     (case find (\<lambda>p. proj_name p = dp_projectId dp) (projects st) of
        Some p \<Rightarrow> (p, st)
      | None \<Rightarrow>
         (let (org, st1) = find_or_create_organization adv dp st;
              p = \<lparr>proj_id = next_id st1, proj_name = dp_projectId dp,
                   proj_slug = slugify (dp_projectId dp),
                   proj_description = ''Deployment for '' @ dp_repositoryUrl dp,
                   organizationId = org_id org\<rparr>
          in (p, st1\<lparr>projects := projects st1 @ [p], next_id := Suc (next_id st1)\<rparr>)))"

definition new_deployment ::
  "project \<Rightarrow> deploy_params \<Rightarrow> string \<Rightarrow> string \<Rightarrow> log_entry list \<Rightarrow> deployment" where
  "new_deployment p dp st_name prov entries =
     \<lparr>dep_id = 0, projectId = proj_id p, branch = dp_branch dp, commitSha = ''latest'',
      status = st_name, provider = prov, environment = ''production'', url = None,
      configuration = dp_buildSettings dp, metadata = None, logs = entries,
      startedAt = 0, completedAt = None, createdBy = dp_userId dp\<rparr>"

definition find_integration :: "string \<Rightarrow> string \<Rightarrow> state \<Rightarrow> integration option" where
  "find_integration uid prov st =
     find (\<lambda>i. int_userId i = uid \<and> int_provider i = prov) (integrations st)"

definition schedule :: "timer \<Rightarrow> state \<Rightarrow> state" where
  "schedule t st = st\<lparr>timers := timers st @ [t]\<rparr>"

definition record_call :: "adapter_call \<Rightarrow> state \<Rightarrow> state" where
  "record_call c st = st\<lparr>calls := calls st @ [c]\<rparr>"

text \<open>The part of \<^verbatim>\<open>deployToVercel\<close> after the record is created with status \<open>deploying\<close>.\<close>

definition vercel_attempt ::
  "env \<Rightarrow> deploy_params \<Rightarrow> token_data \<Rightarrow> deployment \<Rightarrow> state \<Rightarrow> state" where
  "vercel_attempt env dp vercelTokenData deploymentRecord st =
     (let isRealVercelDeployment =
            (\<not> demo vercelTokenData \<and> access_token vercelTokenData \<noteq> ''demo-vercel-token'');
          smartBuildSettings = detectBuildSettings (dp_buildSettings dp)
      in if isRealVercelDeployment then
           (let params = \<lparr>vp_token = access_token vercelTokenData,
                          vp_repositoryUrl = dp_repositoryUrl dp,
                          vp_projectName = dp_projectId dp,
                          vp_buildCommand = ss_buildCommand smartBuildSettings,
                          vp_outputDirectory = ss_outputDirectory smartBuildSettings,
                          vp_installCommand = ss_installCommand smartBuildSettings\<rparr>;
                st1 = tick (advance env) (record_call (VercelCreateDeployment params) st)
            in case vercel_createDeployment env params of
                 Inr vercelResult \<Rightarrow>
                   (let finished = clock st1;
                        (entries, st2) =
                          stamp (advance env)
                            [(rocket @ '' Real Vercel project created successfully!'', ''success''),
                             (party @ '' Live deployment: '' @ vr_url vercelResult, ''success''),
                             (chart @ '' Dashboard: '' @
                                (case vr_dashboardUrl vercelResult of
                                   Some u \<Rightarrow> u | None \<Rightarrow> ''https://vercel.com/dashboard''),
                              ''info'')]
                            (tick (advance env) st1)
                    in deployment_update (dep_id deploymentRecord)
                         \<lparr>u_status = ''deployed'', u_url = Some (vr_url vercelResult),
                          u_completedAt = Some finished, u_metadata = Some (VercelMeta vercelResult),
                          u_logs = entries\<rparr> st2)
               | Inl msg \<Rightarrow>
                   (let (entries, st2) =
                          stamp (advance env)
                            [(cross_mark @ '' Vercel deployment failed: '' @ msg, ''error'')] st1
                    in deployment_update (dep_id deploymentRecord)
                         \<lparr>u_status = ''failed'', u_url = None, u_completedAt = None,
                          u_metadata = None, u_logs = entries\<rparr> st2))
         else
           schedule
             \<lparr>t_target = dep_id deploymentRecord, t_status = ''demo_complete'',
              t_url = ''https://'' @ dp_projectId dp @ ''-demo.vercel.app'',
              t_metadata = None,
              t_messages =
                [(check_mark @ '' Demo deployment completed'', ''info''),
                 (link_sign @ '' Demo URL generated (connect Vercel for real deployments)'',
                  ''info'')]\<rparr> st)"

definition deployToVercel :: "env \<Rightarrow> deploy_params \<Rightarrow> state \<Rightarrow> deploy_response \<times> state" where
  "deployToVercel env dp st =
     (case find_integration (dp_userId dp) ''vercel'' st of
        None \<Rightarrow>
          (let (p, st1) = find_or_create_project (advance env) dp st;
               (entries, st2) =
                 stamp (advance env)
                   [(''Deployment requires Vercel account connection'', ''warning'')] st1;
               (deploymentRecord, st3) =
                 deployment_create (advance env)
                   (new_deployment p dp ''requires_setup'' ''vercel'' entries) st2
           in (\<lparr>r_success = Some False, r_error = Some ''No Vercel integration found'',
                r_message = ''Please connect your Vercel account in Settings first'',
                r_id = dep_id deploymentRecord, r_status = ''requires_setup'',
                r_provider = ''vercel'', r_isDemo = None, r_url = None,
                r_setupUrl = Some ''https://vercel.com/integrations/github''\<rparr>, st3))
      | Some vercelIntegration \<Rightarrow>
          (let (p, st1) = find_or_create_project (advance env) dp st;
               (entries, st2) =
                 stamp (advance env)
                   [(''Deployment started - connecting to Vercel...'', ''info'')] st1;
               (deploymentRecord, st3) =
                 deployment_create (advance env)
                   (new_deployment p dp ''deploying'' ''vercel'' entries) st2;
               vercelTokenData = encryptedToken vercelIntegration;
               isRealVercelDeployment =
                 (\<not> demo vercelTokenData \<and> access_token vercelTokenData \<noteq> ''demo-vercel-token'');
               st4 = vercel_attempt env dp vercelTokenData deploymentRecord st3
           in (\<lparr>r_success = Some True, r_error = None,
                r_message =
                  (if isRealVercelDeployment then ''Real Vercel deployment started successfully!''
                   else ''Demo Vercel deployment started!''),
                r_id = dep_id deploymentRecord,
                r_status = (if isRealVercelDeployment then ''deploying'' else ''demo_deployment''),
                r_provider = ''vercel'', r_isDemo = Some (\<not> isRealVercelDeployment),
                r_url = Some (''https://'' @ dp_projectId dp
                               @ (if isRealVercelDeployment then [] else ''-demo'')
                               @ ''.vercel.app''),
                r_setupUrl = None\<rparr>, st4)))"

text \<open>The \<^verbatim>\<open>try\<close> block of \<^verbatim>\<open>deployToNetlify\<close> and its \<^verbatim>\<open>catch\<close>.\<close>

definition netlify_attempt ::
  "env \<Rightarrow> deploy_params \<Rightarrow> string \<Rightarrow> bool \<Rightarrow> deployment \<Rightarrow> state \<Rightarrow> state" where
  "netlify_attempt env dp netlifyToken isRealDeployment deploymentRecord st =
     (let params = \<lparr>np_token = netlifyToken, np_repositoryUrl = dp_repositoryUrl dp,
                    np_siteName = dp_projectId dp, np_buildCommand = ''npm run build'',
                    np_publishDirectory = ''build''\<rparr>;
          st1 = tick (advance env) (record_call (NetlifyCreateSiteFromRepo params) st)
      in case createSiteFromRepo (netlify env) (clock st) params of
           Inr netlifyResult \<Rightarrow>
             (if isRealDeployment then
                (let finished = clock st1;
                     (entries, st2) =
                       stamp (advance env)
                         ([(party @ '' Netlify site created successfully!'', ''success''),
                           (link_sign @ '' Site URL: '' @ nr_url netlifyResult, ''info''),
                           (if nr_automated netlifyResult = Some True
                            then (if nr_gitConnected netlifyResult = Some True
                                  then link_sign @ '' Git repository connected - continuous deployment enabled!''
                                  else warning_sign @ '' Manual deployment created (Git connection failed)'')
                            else clipboard @ '' Connect your GitHub repo in Netlify dashboard to enable auto-deployments'',
                            if nr_gitConnected netlifyResult = Some True then ''success''
                            else ''warning'')]
                          @ (case nr_buildLogs netlifyResult of
                               Some ls \<Rightarrow> map (\<lambda>l. (clipboard @ '' '' @ l, ''info'')) ls
                             | None \<Rightarrow> []))
                         (tick (advance env) st1)
                 in deployment_update (dep_id deploymentRecord)
                      \<lparr>u_status = (if nr_status netlifyResult = ''ready_for_setup''
                                   then ''setup_required'' else ''deployed''),
                       u_url = Some (nr_url netlifyResult), u_completedAt = Some finished,
                       u_metadata = Some (NetlifyMeta netlifyResult True),
                       u_logs = entries\<rparr> st2)
              else
                schedule
                  \<lparr>t_target = dep_id deploymentRecord, t_status = ''demo_complete'',
                   t_url = nr_url netlifyResult,
                   t_metadata = Some (NetlifyMeta netlifyResult False),
                   t_messages =
                     [(check_mark @ '' Demo deployment completed'', ''success''),
                      (link_sign @ '' Demo URL generated (connect Netlify for real deployments)'',
                       ''info'')]\<rparr> st1)
         | Inl (Error msg) \<Rightarrow>
             (let (entries, st2) =
                    stamp (advance env)
                      [(cross_mark @ '' Deployment failed: '' @ msg, ''error'')] st1
              in deployment_update (dep_id deploymentRecord)
                   \<lparr>u_status = ''failed'', u_url = None, u_completedAt = None,
                    u_metadata = None, u_logs = entries\<rparr> st2))"

definition deployToNetlify :: "env \<Rightarrow> deploy_params \<Rightarrow> state \<Rightarrow> deploy_response \<times> state" where
  "deployToNetlify env dp st =
     (let (p, st1) = find_or_create_project (advance env) dp st;
          (entries, st2) =
            stamp (advance env)
              [(bullseye @ '' DEMO: This is a simulated deployment for demonstration purposes'',
                ''info''),
               (''Real deployments require connecting your Netlify account'', ''warning'')] st1;
          (deploymentRecord, st3) =
            deployment_create (advance env)
              (new_deployment p dp ''demo_deployment'' ''netlify'' entries) st2;
          (netlifyToken, isRealDeployment) =
            (case find_integration (dp_userId dp) ''netlify'' st3 of
               Some netlifyIntegration \<Rightarrow>
                 (let tokenData = encryptedToken netlifyIntegration
                  in if \<not> demo tokenData \<and> access_token tokenData \<noteq> ''demo-netlify-token''
                     then (access_token tokenData, True) else (''demo-token'', False))
             | None \<Rightarrow> (''demo-token'', False));
          st4 = netlify_attempt env dp netlifyToken isRealDeployment deploymentRecord st3
      in (\<lparr>r_success = None, r_error = None,
           r_message =
             (if isRealDeployment then ''Real Netlify deployment in progress...''
              else ''Demo deployment in progress (not a real deployment)''),
           r_id = dep_id deploymentRecord,
           r_status = (if isRealDeployment then ''deploying'' else ''demo_deployment''),
           r_provider = ''netlify'', r_isDemo = Some (\<not> isRealDeployment),
           r_url = None, r_setupUrl = None\<rparr>, st4))"

text \<open>
  A \<^verbatim>\<open>setTimeout\<close> callback runs: the update it carries is applied with
  \<^verbatim>\<open>completedAt\<close> and the log entries stamped at that moment.
\<close>

definition fire_timer :: "env \<Rightarrow> nat \<Rightarrow> state \<Rightarrow> state" where
  "fire_timer env n st =
     (if n < length (timers st) then
        (let t = timers st ! n;
             st1 = st\<lparr>timers := take n (timers st) @ drop (Suc n) (timers st)\<rparr>;
             finished = clock st1;
             (entries, st2) = stamp (advance env) (t_messages t) (tick (advance env) st1)
         in deployment_update (t_target t)
              \<lparr>u_status = t_status t, u_url = Some (t_url t), u_completedAt = Some finished,
               u_metadata = t_metadata t, u_logs = entries\<rparr> st2)
      else st)"

section \<open>The deployments controller\<close>

record deployment_data =
  dd_projectId :: string
  dd_repositoryUrl :: string
  dd_branch :: "string option"
  dd_provider :: "string option"
  dd_buildSettings :: "build_settings option"

definition default_build_settings :: build_settings where
  "default_build_settings =
     \<lparr>buildCommand = Some ''npm run build'', outputDirectory = Some ''build'',
      installCommand = Some ''npm install'', framework_name = None, bs_name = None,
      hasPackageJson = None\<rparr>"

definition deploymentParams :: "string \<Rightarrow> deployment_data \<Rightarrow> deploy_params" where
  "deploymentParams uid deploymentData =
     \<lparr>dp_userId = uid,
      dp_projectId = dd_projectId deploymentData,
      dp_repositoryUrl = dd_repositoryUrl deploymentData,
      dp_branch = str_or (dd_branch deploymentData) ''main'',
      dp_buildSettings =
        Some (case dd_buildSettings deploymentData of
                Some b \<Rightarrow> b | None \<Rightarrow> default_build_settings),
      dp_githubToken = ''user-github-token''\<rparr>"

definition createDeployment ::
  "env \<Rightarrow> string \<Rightarrow> deployment_data \<Rightarrow> state \<Rightarrow> deploy_response \<times> state" where
  "createDeployment env uid deploymentData st =
     (if dd_provider deploymentData = Some ''vercel''
        then deployToVercel env (deploymentParams uid deploymentData) st
      else if dd_provider deploymentData = Some ''netlify''
        then deployToNetlify env (deploymentParams uid deploymentData) st
      else deployToNetlify env (deploymentParams uid deploymentData) st)"

section \<open>The integrations controller\<close>

record connection_data =
  cd_token :: "string option"
  cd_demo :: bool
  cd_externalId :: "string option"
  cd_scopes :: "string list option"

record connect_response =
  c_success :: bool
  c_error :: "string option"
  c_message :: "string option"
  c_integration_id :: "nat option"
  c_isDemo :: "bool option"
  c_externalUserId :: "string option"
  c_connectedUser :: "user_info option"

definition token_given :: "connection_data \<Rightarrow> bool" where
  "token_given connectionData =
     (case cd_token connectionData of Some t \<Rightarrow> t \<noteq> [] | None \<Rightarrow> False)"

text \<open>The \<^verbatim>\<open>upsert\<close> on the key (user, provider).\<close>

definition integration_upsert ::
  "(nat \<Rightarrow> nat) \<Rightarrow> string \<Rightarrow> string \<Rightarrow> string \<Rightarrow> token_data \<Rightarrow> string list \<Rightarrow> state
     \<Rightarrow> integration \<times> state" where
  "integration_upsert adv uid prov ext tok scps st =
     (case find_integration uid prov st of
        Some old \<Rightarrow>
          (let new = old\<lparr>encryptedToken := tok, externalId := ext, int_updatedAt := clock st\<rparr>
           in (new,
               tick adv
                 (st\<lparr>integrations :=
                       map (\<lambda>i. if int_userId i = uid \<and> int_provider i = prov then new else i)
                         (integrations st)\<rparr>)))
      | None \<Rightarrow>
          (let new = \<lparr>int_id = next_id st, int_userId = uid, int_provider = prov,
                      externalId = ext, encryptedToken = tok, scopes = scps,
                      int_updatedAt = clock st\<rparr>
           in (new,
               tick adv
                 (st\<lparr>integrations := integrations st @ [new],
                     next_id := Suc (next_id st)\<rparr>))))"

text \<open>
  The second half of \<^verbatim>\<open>connectProvider\<close>: the \<^verbatim>\<open>upsert\<close> and the answer.  \<open>user\<close>
  is \<^verbatim>\<open>validationResult?.user\<close>.
\<close>

definition save_integration ::
  "env \<Rightarrow> string \<Rightarrow> connection_data \<Rightarrow> string \<Rightarrow> user_info option \<Rightarrow> string \<Rightarrow> state
     \<Rightarrow> connect_response \<times> state" where
  "save_integration env prov connectionData uid user externalUserId st =
     (let tokenData =
            \<lparr>access_token = str_or (cd_token connectionData) (''demo-'' @ prov @ ''-token''),
             demo = (cd_demo connectionData \<or> \<not> token_given connectionData),
             userInfo = user\<rparr>;
          (integration, st2) =
            integration_upsert (advance env) uid prov externalUserId tokenData
              (case cd_scopes connectionData of Some sc \<Rightarrow> sc | None \<Rightarrow> [''read'', ''write'']) st
      in (\<lparr>c_success = True, c_error = None,
           c_message =
             Some (if token_given connectionData \<and> \<not> cd_demo connectionData
                   then check_mark @ '' '' @ prov @ '' connected successfully!''
                   else bullseye @ '' '' @ prov @ '' demo mode enabled''),
           c_integration_id = Some (int_id integration),
           c_isDemo = Some (cd_demo connectionData \<or> \<not> token_given connectionData),
           c_externalUserId = Some externalUserId,
           c_connectedUser = user\<rparr>, st2))"

definition connectProvider ::
  "env \<Rightarrow> string \<Rightarrow> connection_data \<Rightarrow> string \<Rightarrow> state \<Rightarrow> connect_response \<times> state" where
  "connectProvider env prov connectionData uid st =
     (if prov = ''netlify'' \<or> prov = ''vercel'' then
        (let externalUserId0 =
               str_or (cd_externalId connectionData) (''demo-user-'' @ string_of_nat (clock st));
             st0 = tick (advance env) st;
             token = (case cd_token connectionData of Some t \<Rightarrow> t | None \<Rightarrow> [])
         in if token_given connectionData \<and> \<not> cd_demo connectionData then
              (let st1 = tick (advance env)
                           (record_call
                              (if prov = ''vercel'' then VercelValidateToken token
                               else NetlifyValidateToken token) st0)
               in case (if prov = ''vercel'' then vercel_validateToken env token
                        else netlify_validateToken env token) of
                    Inl err \<Rightarrow>
                      (\<lparr>c_success = False, c_error = Some err,
                        c_message = Some ''Token validation failed'', c_integration_id = None,
                        c_isDemo = None, c_externalUserId = None, c_connectedUser = None\<rparr>, st1)
                  | Inr user \<Rightarrow>
                      save_integration env prov connectionData uid (Some user) (ui_id user) st1)
            else save_integration env prov connectionData uid None externalUserId0 st0)
      else
        (\<lparr>c_success = False, c_error = Some ''Unsupported provider'', c_message = None,
          c_integration_id = None, c_isDemo = None, c_externalUserId = None,
          c_connectedUser = None\<rparr>, st))"

section \<open>Runs of the system\<close>

text \<open>
  What can happen to the store: a request to one of the controllers, or a pending
  \<^verbatim>\<open>setTimeout\<close> callback running.  Each event meets the outside world of its moment.
\<close>

datatype event =
  CreateDeployment string deployment_data
| RollbackDeployment nat string
| ConnectProvider string connection_data string
| TimerFires nat

fun step :: "env \<Rightarrow> event \<Rightarrow> state \<Rightarrow> state" where
  "step env (CreateDeployment uid deploymentData) st = snd (createDeployment env uid deploymentData st)"
| "step env (RollbackDeployment i uid) st = snd (rollbackDeployment (advance env) i uid st)"
| "step env (ConnectProvider prov connectionData uid) st =
     snd (connectProvider env prov connectionData uid st)"
| "step env (TimerFires n) st = fire_timer env n st"

definition empty_store :: "nat \<Rightarrow> state" where
  "empty_store t =
     \<lparr>organizations = [], projects = [], deployments = [], integrations = [],
      repositories = [], repositoryAnalyses = [], timers = [], calls = [], writes = [],
      next_id = 0, clock = t\<rparr>"

fun run :: "(env \<times> event) list \<Rightarrow> state \<Rightarrow> state" where
  "run [] st = st"
| "run ((env, e) # es) st = run es (step env e st)"

text \<open>The statuses and the logs one row has been given, oldest first.\<close>

definition statuses_of :: "nat \<Rightarrow> row_write list \<Rightarrow> string list" where
  "statuses_of i ws = map w_status (filter (\<lambda>w. w_target w = i) ws)"

definition logs_of :: "nat \<Rightarrow> row_write list \<Rightarrow> log_entry list list" where
  "logs_of i ws = map w_logs (filter (\<lambda>w. w_target w = i) ws)"

text \<open>The statuses a row is created with, and the changes of status the services make.\<close>

definition initial_status :: "string \<Rightarrow> bool" where
  "initial_status s \<longleftrightarrow> s \<in> {''requires_setup'', ''deploying'', ''demo_deployment'', ''deployed''}"

definition in_progress :: "string \<Rightarrow> bool" where
  "in_progress s \<longleftrightarrow> s \<in> {''deploying'', ''demo_deployment''}"

definition status_change :: "string \<Rightarrow> string \<Rightarrow> bool" where
  "status_change s s' \<longleftrightarrow>
     (s = ''deploying'' \<and> s' \<in> {''deployed'', ''failed'', ''demo_complete''})
     \<or> (s = ''demo_deployment'' \<and> s' \<in> {''deployed'', ''setup_required'', ''failed'', ''demo_complete''})"

definition terminal :: "string \<Rightarrow> bool" where
  "terminal s \<longleftrightarrow> s \<in> {''deployed'', ''requires_setup'', ''needs_setup'', ''failed''}"

definition time_ordered :: "log_entry list \<Rightarrow> bool" where
  "time_ordered es \<longleftrightarrow> sorted (map timestamp es)"

text \<open>
  A history of statuses is in order when it starts with a status rows are created with
  and every later status follows its predecessor by one of the changes above.
\<close>

definition good_history :: "string list \<Rightarrow> bool" where
  "good_history ss \<longleftrightarrow>
     (case ss of [] \<Rightarrow> True | s # rest \<Rightarrow> initial_status s \<and> successively status_change ss)"

text \<open>
  The trace is in order: every write is to a key handed out, stores a time-ordered log
  and belongs to a history in order; every pending callback will set \<open>demo_complete\<close> on a
  row whose last status is one in progress, and no two callbacks have the same row.
\<close>

definition history_ok :: "state \<Rightarrow> bool" where
  "history_ok st \<longleftrightarrow>
     (\<forall>w \<in> set (writes st).
        w_target w < next_id st \<and> time_ordered (w_logs w)
        \<and> good_history (statuses_of (w_target w) (writes st)))
     \<and> (\<forall>t \<in> set (timers st).
          t_status t = ''demo_complete''
          \<and> statuses_of (t_target t) (writes st) \<noteq> []
          \<and> in_progress (last (statuses_of (t_target t) (writes st))))
     \<and> distinct (map t_target (timers st))"

text \<open>The table agrees with the trace: a row holds the status and log last written to it.\<close>

definition table_ok :: "state \<Rightarrow> bool" where
  "table_ok st \<longleftrightarrow>
     (\<forall>w \<in> set (writes st). w_target w < next_id st)
     \<and> (\<forall>d \<in> set (deployments st).
          dep_id d < next_id st
          \<and> statuses_of (dep_id d) (writes st) \<noteq> []
          \<and> status d = last (statuses_of (dep_id d) (writes st))
          \<and> logs d = last (logs_of (dep_id d) (writes st)))"

text \<open>
  What an attempt does to a row \<open>i\<close> created with status \<open>s0\<close>: it hands out no key,
  writes to that row only, along the changes of status, and either schedules nothing or
  writes nothing and schedules one callback for the row.
\<close>

definition attempt_effect :: "nat \<Rightarrow> string \<Rightarrow> state \<Rightarrow> state \<Rightarrow> bool" where
  "attempt_effect i s0 st st' \<longleftrightarrow>
     next_id st' = next_id st
     \<and> (\<exists>ws ts. writes st' = writes st @ ws \<and> timers st' = timers st @ ts
           \<and> (\<forall>w \<in> set ws. w_target w = i \<and> time_ordered (w_logs w))
           \<and> successively status_change (s0 # map w_status ws)
           \<and> (ts = [] \<or> (ws = [] \<and> (\<exists>t. ts = [t] \<and> t_target t = i
                                          \<and> t_status t = ''demo_complete''))))"

section \<open>Example data\<close>









text \<open>A world in which every request is rejected, and a Netlify request.\<close>

definition offline :: netlify_env where
  "offline =
     \<lparr>github_repo_info = (\<lambda>owner repo. Rejected ''fetch failed''),
      create_site = (\<lambda>token name. Rejected ''fetch failed''),
      create_hook = (\<lambda>siteId token branch. Rejected ''fetch failed''),
      github_zip = (\<lambda>owner repo branch. Rejected ''fetch failed''),
      upload_deploy = (\<lambda>siteId token. Rejected ''fetch failed''),
      create_site_fallback = (\<lambda>token name. Rejected ''fetch failed''),
      create_hook_fallback = (\<lambda>siteId token. Rejected ''fetch failed'')\<rparr>"

definition shop_params :: netlify_params where
  "shop_params =
     \<lparr>np_token = ''demo-token'', np_repositoryUrl = ''https://github.com/alice/shop.git'',
      np_siteName = ''My Shop'', np_buildCommand = ''npm run build'',
      np_publishDirectory = ''build''\<rparr>"


text \<open>
  A world in which the providers refuse every request, one in which Vercel accepts the
  token and the deployment, and two requests.
\<close>

definition refusing :: env where
  "refusing =
     \<lparr>advance = (\<lambda>t. 1),
      vercel_createDeployment = (\<lambda>p. Inl ''Vercel API error: 403 - Unknown error''),
      netlify = offline,
      vercel_validateToken = (\<lambda>t. Inl ''Invalid token or insufficient permissions''),
      netlify_validateToken = (\<lambda>t. Inl ''Invalid token or insufficient permissions'')\<rparr>"

definition accepting :: env where
  "accepting =
     \<lparr>advance = (\<lambda>t. 1),
      vercel_createDeployment =
        (\<lambda>p. Inr \<lparr>vr_url = ''https://my-shop.vercel.app'', vr_dashboardUrl = None\<rparr>),
      netlify = offline,
      vercel_validateToken =
        (\<lambda>t. Inr \<lparr>ui_id = ''u_1'', ui_email = ''alice@example.org'', ui_name = ''Alice''\<rparr>),
      netlify_validateToken =
        (\<lambda>t. Inr \<lparr>ui_id = ''n_1'', ui_email = ''alice@example.org'', ui_name = ''Alice''\<rparr>)\<rparr>"

definition shop_request :: deployment_data where
  "shop_request =
     \<lparr>dd_projectId = ''My Shop'', dd_repositoryUrl = ''https://github.com/alice/shop'',
      dd_branch = None, dd_provider = Some ''vercel'', dd_buildSettings = None\<rparr>"

definition real_connection :: connection_data where
  "real_connection =
     \<lparr>cd_token = Some ''vcl_live_secret'', cd_demo = False, cd_externalId = None,
      cd_scopes = None\<rparr>"

definition demo_connection :: connection_data where
  "demo_connection =
     \<lparr>cd_token = None, cd_demo = True, cd_externalId = None, cd_scopes = None\<rparr>"


text \<open>
  Alice turns the Vercel demo mode on and asks for a deployment; then the callback of
  the simulated deployment runs.
\<close>

definition demo_started :: state where
  "demo_started =
     run [(accepting, ConnectProvider ''vercel'' demo_connection ''alice''),
          (accepting, CreateDeployment ''alice'' shop_request)] (empty_store 1000)"

definition demo_finished :: state where
  "demo_finished = step accepting (TimerFires 0) demo_started"

text \<open>Alice connects Vercel with a token of hers and asks for a deployment.\<close>

definition real_run :: state where
  "real_run =
     run [(accepting, ConnectProvider ''vercel'' real_connection ''alice''),
          (accepting, CreateDeployment ''alice'' shop_request)] (empty_store 1000)"

text \<open>The same request for Netlify, from a user who has connected nothing.\<close>

definition netlify_request :: deployment_data where
  "netlify_request = shop_request\<lparr>dd_provider := Some ''netlify''\<rparr>"



section \<open>Properties of rollback\<close>




lemma stamp_frame:
  "stamp adv ms st = (es, st') \<Longrightarrow>
     deployments st' = deployments st \<and> calls st' = calls st \<and> next_id st' = next_id st
     \<and> timers st' = timers st \<and> integrations st' = integrations st \<and> writes st' = writes st
     \<and> projects st' = projects st \<and> organizations st' = organizations st"
proof (induction ms arbitrary: st es st')
  case Nil
  then show ?case by simp
next
  case (Cons a ms)
  obtain m l where a: "a = (m, l)" by (cases a)
  obtain es2 st2 where r: "stamp adv ms (tick adv st) = (es2, st2)"
    by (cases "stamp adv ms (tick adv st)")
  from Cons.prems a r have "st' = st2" by simp
  with Cons.IH [OF r] show ?case by (simp add: tick_def)
qed




section \<open>Properties of the analysis\<close>



















section \<open>Properties of the Netlify adapter\<close>

lemma fallback_site_cases:
  "fallback_site env now token siteName = demo_result now siteName
   \<or> (\<exists>s u. create_site_fallback env token siteName = Body s
          \<and> fallback_site env now token siteName = hook_result s siteName u)"
  by (auto simp: fallback_site_def split: fetched.splits)

text \<open>
  C9.  When the repository URL matches the GitHub pattern, \<^verbatim>\<open>createSiteFromRepo\<close>
  returns a result whatever the requests come to; a result flagged \<open>isDemo\<close> has an
  id that starts with \<open>demo-\<close> and the URL \<^verbatim>\<open>https://<site-name>-demo.netlify.app\<close>;
  and when neither the first nor the second attempt to create a site yields a site, the
  result is that fabricated demo answer.
\<close>

theorem createSiteFromRepo_never_throws:
  assumes "repoMatch (np_repositoryUrl params) \<noteq> None"
  shows "\<exists>r. createSiteFromRepo env now params = Inr r
     \<and> (nr_isDemo r = Some True \<longrightarrow>
           take 5 (nr_id r) = ''demo-''
           \<and> nr_url r = ''https://'' @ slugify (np_siteName params) @ ''-demo.netlify.app'')
     \<and> ((\<forall>s. create_site env (np_token params) (slugify (np_siteName params)) \<noteq> Body s)
          \<and> (\<forall>s. create_site_fallback env (np_token params) (slugify (np_siteName params)) \<noteq> Body s)
          \<longrightarrow> r = demo_result now (slugify (np_siteName params)))"
proof -
  from assms obtain owner repo where m: "repoMatch (np_repositoryUrl params) = Some (owner, repo)"
    by auto
  let ?tok = "np_token params" and ?name = "slugify (np_siteName params)"
  have demo: "nr_isDemo (demo_result now ?name) = Some True"
    "take 5 (nr_id (demo_result now ?name)) = ''demo-''"
    "nr_url (demo_result now ?name) = ''https://'' @ ?name @ ''-demo.netlify.app''"
    by (simp_all add: demo_result_def)
  have hook: "\<And>s u. nr_isDemo (hook_result s ?name u) = None"
    by (simp add: hook_result_def)
  show ?thesis
  proof (cases "create_site env ?tok ?name")
    case (Body s)
    then show ?thesis using m
      by (simp add: createSiteFromRepo_def Let_def)
  next
    case (Rejected x)
    then have r: "createSiteFromRepo env now params = Inr (fallback_site env now ?tok ?name)"
      using m by (simp add: createSiteFromRepo_def Let_def)
    from fallback_site_cases [of env now ?tok ?name] show ?thesis
      using r demo hook by auto
  next
    case (Not_ok x)
    then have r: "createSiteFromRepo env now params = Inr (fallback_site env now ?tok ?name)"
      using m by (simp add: createSiteFromRepo_def Let_def)
    from fallback_site_cases [of env now ?tok ?name] show ?thesis
      using r demo hook by auto
  next
    case (Unreadable x)
    then have r: "createSiteFromRepo env now params = Inr (fallback_site env now ?tok ?name)"
      using m by (simp add: createSiteFromRepo_def Let_def)
    from fallback_site_cases [of env now ?tok ?name] show ?thesis
      using r demo hook by auto
  qed
qed


theorem createSiteFromRepo_never_throws_witness:
  "repoMatch (np_repositoryUrl shop_params) = Some (''alice'', ''shop.git'')
   \<and> createSiteFromRepo offline 1700 shop_params = Inr (demo_result 1700 ''my-shop'')
   \<and> nr_id (demo_result 1700 ''my-shop'') = ''demo-1700''
   \<and> nr_url (demo_result 1700 ''my-shop'') = ''https://my-shop-demo.netlify.app''"
proof -
  have m: "repoMatch (np_repositoryUrl shop_params) = Some (''alice'', ''shop.git'')"
    by (simp add: shop_params_def match_at_def)
  then have h: "repoMatch (np_repositoryUrl shop_params) \<noteq> None" by simp
  have n: "slugify (np_siteName shop_params) = ''my-shop''"
    by code_simp
  have f: "(\<forall>s. create_site offline (np_token shop_params) (slugify (np_siteName shop_params)) \<noteq> Body s)
          \<and> (\<forall>s. create_site_fallback offline (np_token shop_params) (slugify (np_siteName shop_params)) \<noteq> Body s)"
    by (simp add: offline_def)
  from createSiteFromRepo_never_throws [OF h, of offline 1700] f
  have "createSiteFromRepo offline 1700 shop_params = Inr (demo_result 1700 (slugify (np_siteName shop_params)))"
    by blast
  with n have r: "createSiteFromRepo offline 1700 shop_params = Inr (demo_result 1700 ''my-shop'')"
    by simp
  have i: "nr_id (demo_result 1700 ''my-shop'') = ''demo-1700''"
    by code_simp
  have u: "nr_url (demo_result 1700 ''my-shop'') = ''https://my-shop-demo.netlify.app''"
    by (simp add: demo_result_def)
  from m r i u show ?thesis by blast
qed

section \<open>What the store operations change\<close>

lemma tick_fields [simp]:
  "writes (tick a st) = writes st" "timers (tick a st) = timers st"
  "next_id (tick a st) = next_id st" "deployments (tick a st) = deployments st"
  "calls (tick a st) = calls st" "integrations (tick a st) = integrations st"
  "projects (tick a st) = projects st" "organizations (tick a st) = organizations st"
  "clock st \<le> clock (tick a st)"
  by (simp_all add: tick_def)

lemma stamp_fields [simp]:
  "writes (snd (stamp a ms st)) = writes st" "timers (snd (stamp a ms st)) = timers st"
  "next_id (snd (stamp a ms st)) = next_id st" "deployments (snd (stamp a ms st)) = deployments st"
  "calls (snd (stamp a ms st)) = calls st" "integrations (snd (stamp a ms st)) = integrations st"
  using stamp_frame [of a ms st "fst (stamp a ms st)" "snd (stamp a ms st)"] by simp_all

lemma stamp_after:
  "e \<in> set (fst (stamp a ms st)) \<Longrightarrow> clock st \<le> timestamp e"
proof (induction ms arbitrary: st)
  case Nil
  then show ?case by simp
next
  case (Cons m ms)
  obtain msg lvl where m: "m = (msg, lvl)" by (cases m)
  from Cons.prems m have "e = \<lparr>timestamp = clock st, message = msg, level = lvl\<rparr>
      \<or> e \<in> set (fst (stamp a ms (tick a st)))"
    by (auto simp: Let_def split: prod.splits)
  then show ?case
  proof
    assume "e = \<lparr>timestamp = clock st, message = msg, level = lvl\<rparr>"
    then show ?thesis by simp
  next
    assume "e \<in> set (fst (stamp a ms (tick a st)))"
    then have "clock (tick a st) \<le> timestamp e" by (rule Cons.IH)
    then show ?thesis by (simp add: tick_def)
  qed
qed

lemma stamp_time_ordered [simp]: "time_ordered (fst (stamp a ms st))"
proof (induction ms arbitrary: st)
  case Nil
  then show ?case by (simp add: time_ordered_def)
next
  case (Cons m ms)
  obtain msg lvl where m: "m = (msg, lvl)" by (cases m)
  have "\<forall>e \<in> set (fst (stamp a ms (tick a st))). clock st \<le> timestamp e"
    using stamp_after [of _ a ms "tick a st"] by (fastforce simp: tick_def)
  moreover have "time_ordered (fst (stamp a ms (tick a st)))" by (rule Cons.IH)
  ultimately show ?case using m
    by (auto simp: time_ordered_def Let_def split: prod.splits)
qed

lemma organization_fields [simp]:
  "writes (snd (find_or_create_organization a dp st)) = writes st"
  "timers (snd (find_or_create_organization a dp st)) = timers st"
  "deployments (snd (find_or_create_organization a dp st)) = deployments st"
  "calls (snd (find_or_create_organization a dp st)) = calls st"
  "integrations (snd (find_or_create_organization a dp st)) = integrations st"
  "next_id st \<le> next_id (snd (find_or_create_organization a dp st))"
  by (simp_all add: find_or_create_organization_def Let_def split: option.splits)

lemma project_fields [simp]:
  "writes (snd (find_or_create_project a dp st)) = writes st"
  "timers (snd (find_or_create_project a dp st)) = timers st"
  "deployments (snd (find_or_create_project a dp st)) = deployments st"
  "calls (snd (find_or_create_project a dp st)) = calls st"
  "integrations (snd (find_or_create_project a dp st)) = integrations st"
  by (simp_all add: find_or_create_project_def Let_def split_def split: option.splits)

lemma project_next_id [simp]: "next_id st \<le> next_id (snd (find_or_create_project a dp st))"
proof -
  have "next_id st \<le> Suc (next_id (snd (find_or_create_organization a dp st)))"
    by (rule le_SucI) simp
  then show ?thesis
    by (simp add: find_or_create_project_def Let_def split_def split: option.splits)
qed

lemma create_fields [simp]:
  "writes (snd (deployment_create a d st))
     = writes st @ [\<lparr>w_target = next_id st, w_status = status d, w_logs = logs d\<rparr>]"
  "timers (snd (deployment_create a d st)) = timers st"
  "next_id (snd (deployment_create a d st)) = Suc (next_id st)"
  "deployments (snd (deployment_create a d st))
     = deployments st @ [d\<lparr>dep_id := next_id st, startedAt := clock st\<rparr>]"
  "calls (snd (deployment_create a d st)) = calls st"
  "integrations (snd (deployment_create a d st)) = integrations st"
  "fst (deployment_create a d st) = d\<lparr>dep_id := next_id st, startedAt := clock st\<rparr>"
  by (simp_all add: deployment_create_def Let_def)

lemma update_fields [simp]:
  "writes (deployment_update i u st)
     = writes st @ [\<lparr>w_target = i, w_status = u_status u, w_logs = u_logs u\<rparr>]"
  "timers (deployment_update i u st) = timers st"
  "next_id (deployment_update i u st) = next_id st"
  "calls (deployment_update i u st) = calls st"
  "integrations (deployment_update i u st) = integrations st"
  by (simp_all add: deployment_update_def)

lemma schedule_fields [simp]:
  "writes (schedule t st) = writes st" "timers (schedule t st) = timers st @ [t]"
  "next_id (schedule t st) = next_id st" "calls (schedule t st) = calls st"
  "deployments (schedule t st) = deployments st" "integrations (schedule t st) = integrations st"
  by (simp_all add: schedule_def)

lemma record_call_fields [simp]:
  "writes (record_call c st) = writes st" "timers (record_call c st) = timers st"
  "next_id (record_call c st) = next_id st" "calls (record_call c st) = calls st @ [c]"
  "deployments (record_call c st) = deployments st" "integrations (record_call c st) = integrations st"
  by (simp_all add: record_call_def)

section \<open>The table follows the trace\<close>

lemma statuses_of_append [simp]:
  "statuses_of i (ws @ vs) = statuses_of i ws @ statuses_of i vs"
  by (simp add: statuses_of_def)

lemma logs_of_append [simp]: "logs_of i (ws @ vs) = logs_of i ws @ logs_of i vs"
  by (simp add: logs_of_def)

lemma statuses_of_fresh:
  "\<forall>w \<in> set ws. w_target w \<noteq> i \<Longrightarrow> statuses_of i ws = []"
  by (simp add: statuses_of_def filter_empty_conv)

lemma logs_of_fresh: "\<forall>w \<in> set ws. w_target w \<noteq> i \<Longrightarrow> logs_of i ws = []"
  by (simp add: logs_of_def filter_empty_conv)

lemma statuses_of_same:
  "\<forall>w \<in> set ws. w_target w = i \<Longrightarrow> statuses_of i ws = map w_status ws"
  by (simp add: statuses_of_def filter_id_conv)

lemma table_ok_frame:
  assumes "table_ok st" and "writes st' = writes st" and "deployments st' = deployments st"
    and "next_id st \<le> next_id st'"
  shows "table_ok st'"
  using assms unfolding table_ok_def by fastforce

lemma table_ok_create:
  assumes "table_ok st"
  shows "table_ok (snd (deployment_create a d st))"
proof -
  have fresh: "\<forall>w \<in> set (writes st). w_target w \<noteq> next_id st"
    using assms by (auto simp: table_ok_def)
  have s0: "statuses_of (next_id st) (writes st) = []" and l0: "logs_of (next_id st) (writes st) = []"
    using fresh by (simp_all add: statuses_of_fresh logs_of_fresh)
  have old: "\<And>e. e \<in> set (deployments st) \<Longrightarrow> dep_id e \<noteq> next_id st"
    using assms by (auto simp: table_ok_def)
  show ?thesis
    unfolding table_ok_def
  proof (intro conjI ballI)
    fix w assume "w \<in> set (writes (snd (deployment_create a d st)))"
    then show "w_target w < next_id (snd (deployment_create a d st))"
      using assms by (auto simp: table_ok_def less_Suc_eq)
  next
    fix e assume e: "e \<in> set (deployments (snd (deployment_create a d st)))"
    show "dep_id e < next_id (snd (deployment_create a d st))"
      using e assms by (auto simp: table_ok_def less_Suc_eq)
    show "statuses_of (dep_id e) (writes (snd (deployment_create a d st))) \<noteq> []"
      using e assms by (auto simp: table_ok_def statuses_of_def)
    show "status e = last (statuses_of (dep_id e) (writes (snd (deployment_create a d st))))"
      using e assms s0 old by (auto simp: table_ok_def) (auto simp: statuses_of_def)
    show "logs e = last (logs_of (dep_id e) (writes (snd (deployment_create a d st))))"
      using e assms l0 old by (auto simp: table_ok_def) (auto simp: logs_of_def)
  qed
qed

lemma table_ok_update:
  assumes "table_ok st" and "i < next_id st"
  shows "table_ok (deployment_update i u st)"
  unfolding table_ok_def
proof (intro conjI ballI)
  fix w assume "w \<in> set (writes (deployment_update i u st))"
  then show "w_target w < next_id (deployment_update i u st)"
    using assms by (auto simp: table_ok_def)
next
  fix e assume e: "e \<in> set (deployments (deployment_update i u st))"
  then obtain e0 where e0: "e0 \<in> set (deployments st)"
    and ee: "e = (if dep_id e0 = i then apply_update u e0 else e0)"
    by (auto simp: deployment_update_def)
  have id: "dep_id e = dep_id e0" using ee by (simp add: apply_update_def)
  from e0 assms have h: "dep_id e0 < next_id st" "statuses_of (dep_id e0) (writes st) \<noteq> []"
    "status e0 = last (statuses_of (dep_id e0) (writes st))"
    "logs e0 = last (logs_of (dep_id e0) (writes st))"
    by (auto simp: table_ok_def)
  show "dep_id e < next_id (deployment_update i u st)" using id h by simp
  show "statuses_of (dep_id e) (writes (deployment_update i u st)) \<noteq> []"
    using id h by simp
  show "status e = last (statuses_of (dep_id e) (writes (deployment_update i u st)))"
    using id h ee by (cases "dep_id e0 = i") (simp_all add: statuses_of_def apply_update_def)
  show "logs e = last (logs_of (dep_id e) (writes (deployment_update i u st)))"
  proof (cases "dep_id e0 = i")
    case True
    then show ?thesis using id ee by (simp add: logs_of_def apply_update_def)
  next
    case False
    have "logs_of (dep_id e0) (writes st) \<noteq> []"
      using h(2) by (simp add: logs_of_def statuses_of_def)
    then show ?thesis using False id ee h by (simp add: logs_of_def)
  qed
qed

section \<open>The trace stays in order\<close>

lemma history_ok_frame:
  assumes "history_ok st" and "writes st' = writes st" and "timers st' = timers st"
    and "next_id st \<le> next_id st'"
  shows "history_ok st'"
  using assms unfolding history_ok_def by fastforce

lemma target_known:
  assumes "statuses_of j ws \<noteq> []"
  shows "\<exists>w \<in> set ws. w_target w = j"
  using assms by (auto simp: statuses_of_def filter_empty_conv)

lemma history_ok_creates:
  assumes ok: "history_ok st"
    and k: "next_id st \<le> k" "k < next_id st'"
    and w: "writes st' = writes st @ ws" and t: "timers st' = timers st @ ts"
    and ws: "\<forall>w \<in> set ws. w_target w = k \<and> time_ordered (w_logs w)" "ws \<noteq> []"
      "good_history (map w_status ws)"
    and ts: "ts = [] \<or> (\<exists>t. ts = [t] \<and> t_target t = k \<and> t_status t = ''demo_complete''
               \<and> in_progress (w_status (last ws)))"
  shows "history_ok st'"
proof -
  have old_target: "\<And>v. v \<in> set (writes st) \<Longrightarrow> w_target v < k"
    using ok k(1) by (auto simp: history_ok_def)
  have new_k: "statuses_of k (writes st) = []"
    using old_target by (intro statuses_of_fresh) auto
  have new_all: "statuses_of k ws = map w_status ws"
    using ws(1) by (intro statuses_of_same) auto
  have other: "\<And>j. j \<noteq> k \<Longrightarrow> statuses_of j ws = []"
    using ws(1) by (intro statuses_of_fresh) auto
  have timer_target: "\<And>x. x \<in> set (timers st) \<Longrightarrow> t_target x \<noteq> k"
  proof -
    fix x assume "x \<in> set (timers st)"
    then have "statuses_of (t_target x) (writes st) \<noteq> []"
      using ok by (auto simp: history_ok_def)
    then obtain v where "v \<in> set (writes st)" "w_target v = t_target x"
      using target_known by blast
    then show "t_target x \<noteq> k" using old_target [of v] by simp
  qed
  show ?thesis
    unfolding history_ok_def
  proof (intro conjI ballI)
    fix v assume v: "v \<in> set (writes st')"
    show "w_target v < next_id st'"
      using v w ws(1) k ok by (auto simp: history_ok_def)
    show "time_ordered (w_logs v)"
      using v w ws(1) ok by (auto simp: history_ok_def)
    show "good_history (statuses_of (w_target v) (writes st'))"
    proof (cases "w_target v = k")
      case True
      then show ?thesis using w new_k new_all ws(3) by simp
    next
      case False
      then have "v \<in> set (writes st)" using v w ws(1) by auto
      then show ?thesis using False w other ok by (simp add: history_ok_def)
    qed
  next
    fix x assume x: "x \<in> set (timers st')"
    show "t_status x = ''demo_complete''"
      using x t ts ok by (auto simp: history_ok_def)
    show "statuses_of (t_target x) (writes st') \<noteq> []"
      using x t ts ok w new_all ws(2) by (auto simp: history_ok_def)
    show "in_progress (last (statuses_of (t_target x) (writes st')))"
    proof (cases "x \<in> set (timers st)")
      case True
      then show ?thesis
        using timer_target [OF True] other ok w by (simp add: history_ok_def)
    next
      case False
      then have "ts = [x]" using x t ts by auto
      then have "t_target x = k" "in_progress (w_status (last ws))" using ts by auto
      then show ?thesis using w new_k new_all ws(2) by (simp add: last_map)
    qed
  next
    show "distinct (map t_target (timers st'))"
      using t ts ok timer_target by (auto simp: history_ok_def)
  qed
qed

lemma good_history_snoc:
  assumes "good_history ss" and "ss \<noteq> []" and "status_change (last ss) s"
  shows "good_history (ss @ [s])"
proof -
  obtain a list where ss: "ss = a # list" using assms(2) by (cases ss) auto
  have "successively status_change ss" "initial_status a"
    using assms(1) ss by (simp_all add: good_history_def)
  then have "successively status_change (ss @ [s])"
    unfolding successively_append_iff using assms(3) by simp
  then show ?thesis using ss \<open>initial_status a\<close> by (simp add: good_history_def)
qed

lemma in_progress_change: "in_progress s \<Longrightarrow> status_change s ''demo_complete''"
  by (auto simp: in_progress_def status_change_def)

lemma history_ok_fire:
  assumes ok: "history_ok st"
  shows "history_ok (fire_timer env n st)"
proof (cases "n < length (timers st)")
  case False
  then show ?thesis using ok by (simp add: fire_timer_def)
next
  case True
  define t where "t = timers st ! n"
  define i where "i = t_target t"
  define rest where "rest = take n (timers st) @ drop (Suc n) (timers st)"
  have split: "timers st = take n (timers st) @ t # drop (Suc n) (timers st)"
    using True by (simp add: t_def id_take_nth_drop)
  have tmem: "t \<in> set (timers st)" using True by (simp add: t_def)
  have rest_sub: "set rest \<subseteq> set (timers st)"
    unfolding rest_def by (metis split set_append set_subset_Cons Un_mono subset_refl)
  have "distinct (map t_target (take n (timers st) @ t # drop (Suc n) (timers st)))"
    using ok split by (simp add: history_ok_def)
  then have rest_distinct: "distinct (map t_target rest)"
    and rest_other: "\<And>x. x \<in> set rest \<Longrightarrow> t_target x \<noteq> i"
    unfolding rest_def i_def by (auto simp: image_iff)
  have tinfo: "t_status t = ''demo_complete''" "statuses_of i (writes st) \<noteq> []"
    "in_progress (last (statuses_of i (writes st)))"
    using ok tmem by (auto simp: history_ok_def i_def)
  obtain u st2 where fired: "fire_timer env n st = deployment_update i u st2"
    and u: "u_status u = ''demo_complete''" "time_ordered (u_logs u)"
    and st2: "writes st2 = writes st" "timers st2 = rest" "next_id st2 = next_id st"
  proof
    let ?st1 = "st\<lparr>timers := rest\<rparr>"
    let ?r = "stamp (advance env) (t_messages t) (tick (advance env) ?st1)"
    let ?u = "\<lparr>u_status = t_status t, u_url = Some (t_url t), u_completedAt = Some (clock ?st1),
               u_metadata = t_metadata t, u_logs = fst ?r\<rparr>"
    show "fire_timer env n st = deployment_update i ?u (snd ?r)"
      using True by (simp add: fire_timer_def Let_def split_def t_def i_def rest_def)
    show "u_status ?u = ''demo_complete''" using tinfo by simp
    show "time_ordered (u_logs ?u)" by simp
    show "writes (snd ?r) = writes st" by simp
    show "timers (snd ?r) = rest" by simp
    show "next_id (snd ?r) = next_id st" by simp
  qed
  have wtarget: "\<And>v. v \<in> set (writes st) \<Longrightarrow> w_target v < next_id st"
    using ok by (auto simp: history_ok_def)
  have i_lt: "i < next_id st"
    using target_known [OF tinfo(2)] wtarget by auto
  have hist_i: "good_history (statuses_of i (writes st))"
    using target_known [OF tinfo(2)] ok by (auto simp: history_ok_def)
  show ?thesis
    unfolding fired history_ok_def
  proof (intro conjI ballI)
    fix v assume v: "v \<in> set (writes (deployment_update i u st2))"
    show "w_target v < next_id (deployment_update i u st2)"
      using v st2 wtarget i_lt by auto
    show "time_ordered (w_logs v)"
      using v st2 u ok by (auto simp: history_ok_def)
    show "good_history (statuses_of (w_target v) (writes (deployment_update i u st2)))"
    proof (cases "w_target v = i")
      case True
      have "good_history (statuses_of i (writes st) @ [''demo_complete''])"
        using hist_i tinfo by (intro good_history_snoc in_progress_change)
      then show ?thesis using True st2 u by (simp add: statuses_of_def)
    next
      case False
      then have "v \<in> set (writes st)" using v st2 by auto
      then show ?thesis using False st2 ok by (simp add: history_ok_def statuses_of_def)
    qed
  next
    fix x assume x: "x \<in> set (timers (deployment_update i u st2))"
    then have xr: "x \<in> set rest" using st2 by simp
    then have xo: "x \<in> set (timers st)" using rest_sub by auto
    have ne: "t_target x \<noteq> i" using rest_other [OF xr] .
    show "t_status x = ''demo_complete''" using xo ok by (auto simp: history_ok_def)
    show "statuses_of (t_target x) (writes (deployment_update i u st2)) \<noteq> []"
      using xo ok st2 by (auto simp: history_ok_def)
    show "in_progress (last (statuses_of (t_target x) (writes (deployment_update i u st2))))"
      using xo ok st2 ne by (simp add: history_ok_def statuses_of_def)
  next
    show "distinct (map t_target (timers (deployment_update i u st2)))"
      using rest_distinct st2 by simp
  qed
qed

section \<open>The services keep table and trace in order\<close>

declare stamp.simps [simp del]

lemma table_ok_tick [simp]: "table_ok (tick a st) = table_ok st"
  by (simp add: table_ok_def)

lemma table_ok_stamp [simp]: "table_ok (snd (stamp a ms st)) = table_ok st"
  by (simp add: table_ok_def)

lemma table_ok_schedule [simp]: "table_ok (schedule t st) = table_ok st"
  by (simp add: table_ok_def)

lemma table_ok_record_call [simp]: "table_ok (record_call c st) = table_ok st"
  by (simp add: table_ok_def)

lemma table_ok_project: "table_ok st \<Longrightarrow> table_ok (snd (find_or_create_project a dp st))"
  by (erule table_ok_frame) simp_all

lemma vercel_attempt_table:
  assumes "table_ok st" and "dep_id r < next_id st"
  shows "table_ok (vercel_attempt env dp tok r st)"
  using assms
  by (auto simp: vercel_attempt_def Let_def split_def intro!: table_ok_update split: sum.splits)

lemma netlify_attempt_table:
  assumes "table_ok st" and "dep_id r < next_id st"
  shows "table_ok (netlify_attempt env dp tok isReal r st)"
  using assms
  by (auto simp: netlify_attempt_def Let_def split_def intro!: table_ok_update
      split: sum.splits error.splits)

lemma deployToVercel_table:
  assumes "table_ok st"
  shows "table_ok (snd (deployToVercel env dp st))"
proof -
  have p: "table_ok (snd (find_or_create_project (advance env) dp st))"
    using assms by (rule table_ok_project)
  show ?thesis
    using p
    by (auto simp: deployToVercel_def Let_def split_def
        intro!: table_ok_create vercel_attempt_table split: option.splits)
qed

lemma deployToNetlify_table:
  assumes "table_ok st"
  shows "table_ok (snd (deployToNetlify env dp st))"
proof -
  have p: "table_ok (snd (find_or_create_project (advance env) dp st))"
    using assms by (rule table_ok_project)
  show ?thesis
    using p
    by (auto simp: deployToNetlify_def Let_def split_def
        intro!: table_ok_create netlify_attempt_table split: option.splits)
qed

lemma vercel_attempt_effect:
  "attempt_effect (dep_id r) ''deploying'' st (vercel_attempt env dp tok r st)"
proof (cases "\<not> demo tok \<and> access_token tok \<noteq> ''demo-vercel-token''")
  case False
  then show ?thesis
    by (auto simp: attempt_effect_def vercel_attempt_def Let_def)
next
  case True
  show ?thesis
  proof (cases "vercel_createDeployment env
       \<lparr>vp_token = access_token tok, vp_repositoryUrl = dp_repositoryUrl dp,
        vp_projectName = dp_projectId dp,
        vp_buildCommand = ss_buildCommand (detectBuildSettings (dp_buildSettings dp)),
        vp_outputDirectory = ss_outputDirectory (detectBuildSettings (dp_buildSettings dp)),
        vp_installCommand = ss_installCommand (detectBuildSettings (dp_buildSettings dp))\<rparr>")
    case (Inl msg)
    then show ?thesis using True
      by (simp add: attempt_effect_def vercel_attempt_def Let_def split_def status_change_def)
  next
    case (Inr res)
    then show ?thesis using True
      by (simp add: attempt_effect_def vercel_attempt_def Let_def split_def status_change_def)
  qed
qed

lemma netlify_attempt_effect:
  "attempt_effect (dep_id r) ''demo_deployment'' st (netlify_attempt env dp tok isReal r st)"
proof (cases "createSiteFromRepo (netlify env) (clock st)
       \<lparr>np_token = tok, np_repositoryUrl = dp_repositoryUrl dp,
        np_siteName = dp_projectId dp, np_buildCommand = ''npm run build'',
        np_publishDirectory = ''build''\<rparr>")
  case (Inl e)
  obtain msg where "e = Error msg" by (cases e)
  with Inl show ?thesis
    by (simp add: attempt_effect_def netlify_attempt_def Let_def split_def status_change_def)
next
  case (Inr res)
  show ?thesis
  proof (cases isReal)
    case True
    with Inr show ?thesis
      by (simp add: attempt_effect_def netlify_attempt_def Let_def split_def status_change_def)
  next
    case False
    with Inr show ?thesis
      by (simp add: attempt_effect_def netlify_attempt_def Let_def)
  qed
qed

lemma history_ok_attempt:
  assumes ok: "history_ok st"
    and s0: "initial_status (status d)" "in_progress (status d)" "time_ordered (logs d)"
    and eff: "attempt_effect (next_id st) (status d) (snd (deployment_create a d st)) st'"
  shows "history_ok st'"
proof -
  let ?cw = "\<lparr>w_target = next_id st, w_status = status d, w_logs = logs d\<rparr>"
  from eff obtain ws ts where
    n: "next_id st' = Suc (next_id st)"
    and w: "writes st' = writes st @ ?cw # ws"
    and t: "timers st' = timers st @ ts"
    and wsp: "\<forall>w \<in> set ws. w_target w = next_id st \<and> time_ordered (w_logs w)"
    and ch: "successively status_change (status d # map w_status ws)"
    and tsp: "ts = [] \<or> (ws = [] \<and> (\<exists>t. ts = [t] \<and> t_target t = next_id st
                                          \<and> t_status t = ''demo_complete''))"
    by (auto simp: attempt_effect_def)
  show ?thesis
  proof (rule history_ok_creates [OF ok _ _ w t])
    show "next_id st \<le> next_id st" by simp
    show "next_id st < next_id st'" using n by simp
    show "\<forall>w \<in> set (?cw # ws). w_target w = next_id st \<and> time_ordered (w_logs w)"
      using wsp s0(3) by simp
    show "?cw # ws \<noteq> []" by simp
    show "good_history (map w_status (?cw # ws))"
      using ch s0(1) by (simp add: good_history_def)
    show "ts = [] \<or> (\<exists>t. ts = [t] \<and> t_target t = next_id st \<and> t_status t = ''demo_complete''
               \<and> in_progress (w_status (last (?cw # ws))))"
      using tsp s0(2) by auto
  qed
qed

lemma history_ok_project:
  "history_ok st \<Longrightarrow> history_ok (snd (find_or_create_project a dp st))"
  by (erule history_ok_frame) simp_all

lemma history_ok_stamp: "history_ok st \<Longrightarrow> history_ok (snd (stamp a ms st))"
  by (erule history_ok_frame) simp_all

lemma history_ok_single:
  assumes ok: "history_ok st" and "initial_status (status d)" and "time_ordered (logs d)"
  shows "history_ok (snd (deployment_create a d st))"
proof (rule history_ok_creates [OF ok, where k = "next_id st"
        and ws = "[\<lparr>w_target = next_id st, w_status = status d, w_logs = logs d\<rparr>]"
        and ts = "[]"])
qed (use assms in \<open>simp_all add: good_history_def\<close>)

lemma deployToVercel_history:
  assumes "history_ok st"
  shows "history_ok (snd (deployToVercel env dp st))"
proof (cases "find_integration (dp_userId dp) ''vercel'' st")
  case None
  let ?st1 = "snd (find_or_create_project (advance env) dp st)"
  let ?r = "stamp (advance env) [(''Deployment requires Vercel account connection'', ''warning'')] ?st1"
  have "history_ok (snd ?r)"
    using assms by (intro history_ok_stamp history_ok_project)
  then have "history_ok (snd (deployment_create (advance env)
      (new_deployment (fst (find_or_create_project (advance env) dp st)) dp
         ''requires_setup'' ''vercel'' (fst ?r)) (snd ?r)))"
    by (rule history_ok_single) (simp_all add: new_deployment_def initial_status_def)
  then show ?thesis using None
    by (simp add: deployToVercel_def Let_def split_def)
next
  case (Some vi)
  let ?st1 = "snd (find_or_create_project (advance env) dp st)"
  let ?r = "stamp (advance env) [(''Deployment started - connecting to Vercel...'', ''info'')] ?st1"
  let ?d = "new_deployment (fst (find_or_create_project (advance env) dp st)) dp
         ''deploying'' ''vercel'' (fst ?r)"
  let ?c = "deployment_create (advance env) ?d (snd ?r)"
  have ok: "history_ok (snd ?r)"
    using assms by (intro history_ok_stamp history_ok_project)
  have eff: "attempt_effect (dep_id (fst ?c)) ''deploying'' (snd ?c)
               (vercel_attempt env dp (encryptedToken vi) (fst ?c) (snd ?c))"
    by (rule vercel_attempt_effect)
  have "history_ok (vercel_attempt env dp (encryptedToken vi) (fst ?c) (snd ?c))"
  proof (rule history_ok_attempt [OF ok, where d = ?d and a = "advance env"])
    show "initial_status (status ?d)" by (simp add: new_deployment_def initial_status_def)
    show "in_progress (status ?d)" by (simp add: new_deployment_def in_progress_def)
    show "time_ordered (logs ?d)" by (simp add: new_deployment_def)
    show "attempt_effect (next_id (snd ?r)) (status ?d) (snd ?c)
            (vercel_attempt env dp (encryptedToken vi) (fst ?c) (snd ?c))"
      using eff by (simp add: new_deployment_def)
  qed
  then show ?thesis using Some
    by (simp add: deployToVercel_def Let_def split_def)
qed

lemma deployToNetlify_history:
  assumes "history_ok st"
  shows "history_ok (snd (deployToNetlify env dp st))"
proof -
  let ?st1 = "snd (find_or_create_project (advance env) dp st)"
  let ?r = "stamp (advance env)
              [(bullseye @ '' DEMO: This is a simulated deployment for demonstration purposes'',
                ''info''),
               (''Real deployments require connecting your Netlify account'', ''warning'')] ?st1"
  let ?d = "new_deployment (fst (find_or_create_project (advance env) dp st)) dp
         ''demo_deployment'' ''netlify'' (fst ?r)"
  let ?c = "deployment_create (advance env) ?d (snd ?r)"
  have ok: "history_ok (snd ?r)"
    using assms by (intro history_ok_stamp history_ok_project)
  have att: "\<And>tok isReal. history_ok (netlify_attempt env dp tok isReal (fst ?c) (snd ?c))"
  proof -
    fix tok isReal
    have eff: "attempt_effect (dep_id (fst ?c)) ''demo_deployment'' (snd ?c)
               (netlify_attempt env dp tok isReal (fst ?c) (snd ?c))"
      by (rule netlify_attempt_effect)
    show "history_ok (netlify_attempt env dp tok isReal (fst ?c) (snd ?c))"
    proof (rule history_ok_attempt [OF ok, where d = ?d and a = "advance env"])
      show "initial_status (status ?d)" by (simp add: new_deployment_def initial_status_def)
      show "in_progress (status ?d)" by (simp add: new_deployment_def in_progress_def)
      show "time_ordered (logs ?d)" by (simp add: new_deployment_def)
      show "attempt_effect (next_id (snd ?r)) (status ?d) (snd ?c)
              (netlify_attempt env dp tok isReal (fst ?c) (snd ?c))"
        using eff by (simp add: new_deployment_def)
    qed
  qed
  show ?thesis
    unfolding deployToNetlify_def Let_def split_def snd_conv by (rule att)
qed

lemma upsert_fields [simp]:
  "writes (snd (integration_upsert a uid prov ext tok scps st)) = writes st"
  "timers (snd (integration_upsert a uid prov ext tok scps st)) = timers st"
  "deployments (snd (integration_upsert a uid prov ext tok scps st)) = deployments st"
  "calls (snd (integration_upsert a uid prov ext tok scps st)) = calls st"
  by (simp_all add: integration_upsert_def Let_def split: option.splits)

lemma upsert_next_id [simp]:
  "n \<le> next_id st \<Longrightarrow> n \<le> next_id (snd (integration_upsert a uid prov ext tok scps st))"
  by (simp add: integration_upsert_def Let_def split: option.splits)

lemma save_integration_fields [simp]:
  "writes (snd (save_integration env prov cd uid user ext st)) = writes st"
  "timers (snd (save_integration env prov cd uid user ext st)) = timers st"
  "deployments (snd (save_integration env prov cd uid user ext st)) = deployments st"
  "calls (snd (save_integration env prov cd uid user ext st)) = calls st"
  by (simp_all add: save_integration_def Let_def split_def)

lemma save_integration_next_id [simp]:
  "n \<le> next_id st \<Longrightarrow> n \<le> next_id (snd (save_integration env prov cd uid user ext st))"
  by (simp add: save_integration_def Let_def split_def)

lemma connectProvider_fields [simp]:
  "writes (snd (connectProvider env prov cd uid st)) = writes st"
  "timers (snd (connectProvider env prov cd uid st)) = timers st"
  "deployments (snd (connectProvider env prov cd uid st)) = deployments st"
  "next_id st \<le> next_id (snd (connectProvider env prov cd uid st))"
  by (simp_all add: connectProvider_def Let_def split: sum.splits)

lemma rollback_history:
  assumes "history_ok st"
  shows "history_ok (snd (rollbackDeployment a i uid st))"
proof (cases "find_deployment i uid st")
  case None
  then show ?thesis using assms by (simp add: rollbackDeployment_def)
next
  case (Some dep)
  show ?thesis
  proof (cases "find_previous dep st")
    case None
    then show ?thesis using Some assms by (simp add: rollbackDeployment_def)
  next
    case (Some p)
    let ?r = "stamp a [(''Rolled back to deployment '' @ string_of_nat (dep_id p), ''info'')] st"
    have "history_ok (snd ?r)" using assms by (rule history_ok_stamp)
    then have "history_ok (snd (deployment_create a
         \<lparr>dep_id = 0, projectId = projectId dep, branch = branch p, commitSha = commitSha p,
          status = ''deployed'', provider = provider dep, environment = environment dep,
          url = url p, configuration = configuration p, metadata = None, logs = fst ?r,
          startedAt = 0, completedAt = None, createdBy = uid\<rparr> (snd ?r)))"
      by (rule history_ok_single) (simp_all add: initial_status_def)
    then show ?thesis using Some \<open>find_deployment i uid st = Some dep\<close>
      by (simp add: rollbackDeployment_def Let_def split_def)
  qed
qed

lemma rollback_table:
  assumes "table_ok st"
  shows "table_ok (snd (rollbackDeployment a i uid st))"
  using assms
  by (auto simp: rollbackDeployment_def Let_def split_def intro!: table_ok_create
      split: option.splits)

lemma fire_timer_table:
  assumes "table_ok st" and "history_ok st"
  shows "table_ok (fire_timer env n st)"
proof (cases "n < length (timers st)")
  case False
  then show ?thesis using assms by (simp add: fire_timer_def)
next
  case True
  then have "timers st ! n \<in> set (timers st)" by simp
  then have "statuses_of (t_target (timers st ! n)) (writes st) \<noteq> []"
    using assms(2) by (auto simp: history_ok_def)
  then obtain v where "v \<in> set (writes st)" "w_target v = t_target (timers st ! n)"
    using target_known by blast
  then have lt: "t_target (timers st ! n) < next_id st"
    using assms(1) by (auto simp: table_ok_def)
  have t1: "table_ok (st\<lparr>timers := take n (timers st) @ drop (Suc n) (timers st)\<rparr>)"
    using assms(1) by (simp add: table_ok_def)
  show ?thesis
    using True lt t1
    by (auto simp: fire_timer_def Let_def split_def intro!: table_ok_update)
qed

lemma createDeployment_ok:
  assumes "history_ok st \<and> table_ok st"
  shows "history_ok (snd (createDeployment env uid deploymentData st))
         \<and> table_ok (snd (createDeployment env uid deploymentData st))"
  using assms
  by (simp add: createDeployment_def deployToVercel_history deployToNetlify_history
      deployToVercel_table deployToNetlify_table)

lemma step_ok:
  assumes "history_ok st \<and> table_ok st"
  shows "history_ok (step env e st) \<and> table_ok (step env e st)"
proof (cases e)
  case (CreateDeployment uid deploymentData)
  then show ?thesis using createDeployment_ok [OF assms] by simp
next
  case (RollbackDeployment i uid)
  then show ?thesis using assms by (simp add: rollback_history rollback_table)
next
  case (ConnectProvider prov cd uid)
  have h: "history_ok st" and t: "table_ok st" using assms by simp_all
  have "history_ok (snd (connectProvider env prov cd uid st))"
    by (rule history_ok_frame [OF h]) simp_all
  moreover have "table_ok (snd (connectProvider env prov cd uid st))"
    by (rule table_ok_frame [OF t]) simp_all
  ultimately show ?thesis using ConnectProvider by simp
next
  case (TimerFires n)
  then show ?thesis using assms by (simp add: history_ok_fire fire_timer_table)
qed

lemma empty_store_ok: "history_ok (empty_store t) \<and> table_ok (empty_store t)"
  by (simp add: history_ok_def table_ok_def empty_store_def)

lemma run_ok:
  "history_ok st \<and> table_ok st \<Longrightarrow> history_ok (run es st) \<and> table_ok (run es st)"
proof (induction es arbitrary: st)
  case Nil
  then show ?case by simp
next
  case (Cons a es)
  obtain env e where a: "a = (env, e)" by (cases a)
  show ?case using Cons.IH [OF step_ok [OF Cons.prems, of env e]] a by simp
qed

section \<open>Logs and statuses of deployment records\<close>

lemma status_change_from_progress:
  "status_change s s' \<Longrightarrow> in_progress s \<and> \<not> terminal s \<and> s \<noteq> ''queued''"
  by (auto simp: status_change_def in_progress_def terminal_def)

text \<open>
  C1 (as amended).  In every state the system reaches from the empty store, for every
  deployment row: the statuses written to it start with one of \<open>requires_setup\<close>,
  \<open>deploying\<close>, \<open>demo_deployment\<close>, \<open>deployed\<close> (the last by rollback) and go on only by
  \<open>deploying\<close> to \<open>deployed\<close>, \<open>failed\<close> or \<open>demo_complete\<close>, and \<open>demo_deployment\<close> to
  \<open>deployed\<close>, \<open>setup_required\<close>, \<open>failed\<close> or \<open>demo_complete\<close>, so no change leaves a
  terminal status and none starts at \<open>queued\<close>; every log written is non-decreasing in
  timestamp; and the row holds the status and the log written last, the log of a write
  taking the place of the one before it.
\<close>

theorem deployment_history_in_order:
  "good_history (statuses_of i (writes (run es (empty_store t))))
   \<and> successively (\<lambda>s s'. status_change s s' \<and> \<not> terminal s \<and> s \<noteq> ''queued'')
         (statuses_of i (writes (run es (empty_store t))))
   \<and> (\<forall>l \<in> set (logs_of i (writes (run es (empty_store t)))). time_ordered l)
   \<and> (\<forall>d \<in> set (deployments (run es (empty_store t))).
         status d = last (statuses_of (dep_id d) (writes (run es (empty_store t))))
         \<and> logs d = last (logs_of (dep_id d) (writes (run es (empty_store t))))
         \<and> time_ordered (logs d))"
proof -
  let ?st = "run es (empty_store t)"
  have ok: "history_ok ?st" and tab: "table_ok ?st"
    using run_ok [OF empty_store_ok, of es t] by simp_all
  have good: "good_history (statuses_of i (writes ?st))"
  proof (cases "statuses_of i (writes ?st) = []")
    case True
    then show ?thesis by (simp add: good_history_def)
  next
    case False
    then obtain w where "w \<in> set (writes ?st)" "w_target w = i"
      using target_known by blast
    then show ?thesis using ok by (auto simp: history_ok_def)
  qed
  then have "successively status_change (statuses_of i (writes ?st))"
    by (cases "statuses_of i (writes ?st)") (simp_all add: good_history_def)
  then have succ: "successively (\<lambda>s s'. status_change s s' \<and> \<not> terminal s \<and> s \<noteq> ''queued'')
         (statuses_of i (writes ?st))"
    by (rule successively_mono) (use status_change_from_progress in blast)+
  have lg: "\<forall>l \<in> set (logs_of i (writes ?st)). time_ordered l"
    using ok by (auto simp: history_ok_def logs_of_def)
  have rows: "\<forall>d \<in> set (deployments ?st).
         status d = last (statuses_of (dep_id d) (writes ?st))
         \<and> logs d = last (logs_of (dep_id d) (writes ?st))
         \<and> time_ordered (logs d)"
  proof
    fix d assume d: "d \<in> set (deployments ?st)"
    then have a: "statuses_of (dep_id d) (writes ?st) \<noteq> []"
      "status d = last (statuses_of (dep_id d) (writes ?st))"
      "logs d = last (logs_of (dep_id d) (writes ?st))"
      using tab by (auto simp: table_ok_def)
    from a(1) have ne: "logs_of (dep_id d) (writes ?st) \<noteq> []"
      by (simp add: logs_of_def statuses_of_def)
    then have "last (logs_of (dep_id d) (writes ?st)) \<in> set (logs_of (dep_id d) (writes ?st))"
      by simp
    then have "time_ordered (last (logs_of (dep_id d) (writes ?st)))"
      using ok by (auto simp: history_ok_def logs_of_def)
    with a show "status d = last (statuses_of (dep_id d) (writes ?st))
         \<and> logs d = last (logs_of (dep_id d) (writes ?st))
         \<and> time_ordered (logs d)" by simp
  qed
  from good succ lg rows show ?thesis by blast
qed

theorem deployment_history_in_order_witness:
  "good_history (statuses_of 3 (writes demo_finished))
   \<and> statuses_of 3 (writes demo_finished) = [''deploying'', ''demo_complete'']
   \<and> map (map timestamp) (logs_of 3 (writes demo_finished)) = [[1003], [1006, 1007]]"
proof -
  have r: "demo_finished =
     run [(accepting, ConnectProvider ''vercel'' demo_connection ''alice''),
          (accepting, CreateDeployment ''alice'' shop_request),
          (accepting, TimerFires 0)] (empty_store 1000)"
    by (simp add: demo_finished_def demo_started_def)
  have "good_history (statuses_of 3 (writes demo_finished))"
    unfolding r using deployment_history_in_order by blast
  moreover have "statuses_of 3 (writes demo_finished) = [''deploying'', ''demo_complete'']"
    by code_simp
  moreover have "map (map timestamp) (logs_of 3 (writes demo_finished)) = [[1003], [1006, 1007]]"
    by code_simp
  ultimately show ?thesis by blast
qed

text \<open>
  C1 as stated fails in its first part: when the callback of a simulated deployment runs,
  the entry written at creation is gone from the log of the same row.
\<close>

theorem log_overwritten_counterexample:
  "map message (logs (deployments demo_started ! 0))
     = [''Deployment started - connecting to Vercel...'']
   \<and> dep_id (deployments demo_finished ! 0) = dep_id (deployments demo_started ! 0)
   \<and> ''Deployment started - connecting to Vercel...''
        \<notin> set (map message (logs (deployments demo_finished ! 0)))
   \<and> length (logs (deployments demo_finished ! 0)) = 2"
  by code_simp

section \<open>Properties of the deployments controller\<close>

text \<open>
  C10.  A request whose \<open>provider\<close> is neither \<open>vercel\<close> nor \<open>netlify\<close> (absent, or any
  other string) is answered by \<^verbatim>\<open>deployToNetlify\<close> on the parameters built from the
  request, which do not depend on \<open>provider\<close>: the outcome and the new store are those
  of the same request with provider \<open>netlify\<close>.  No branch of \<^verbatim>\<open>createDeployment\<close>
  rejects a request.
\<close>

theorem unknown_provider_goes_to_netlify:
  assumes "dd_provider deploymentData \<noteq> Some ''vercel''"
    and "dd_provider deploymentData \<noteq> Some ''netlify''"
  shows "createDeployment env uid deploymentData st
           = deployToNetlify env (deploymentParams uid deploymentData) st
       \<and> deploymentParams uid deploymentData
           = deploymentParams uid (deploymentData\<lparr>dd_provider := Some ''netlify''\<rparr>)
       \<and> createDeployment env uid deploymentData st
           = createDeployment env uid (deploymentData\<lparr>dd_provider := Some ''netlify''\<rparr>) st"
  using assms by (simp add: createDeployment_def deploymentParams_def)

theorem unknown_provider_goes_to_netlify_witness:
  "dd_provider (shop_request\<lparr>dd_provider := Some ''heroku''\<rparr>) \<noteq> Some ''vercel''
   \<and> dd_provider (shop_request\<lparr>dd_provider := Some ''heroku''\<rparr>) \<noteq> Some ''netlify''
   \<and> createDeployment refusing ''alice'' (shop_request\<lparr>dd_provider := Some ''heroku''\<rparr>)
         (empty_store 1000)
       = createDeployment refusing ''alice'' netlify_request (empty_store 1000)
   \<and> r_provider (fst (createDeployment refusing ''alice''
         (shop_request\<lparr>dd_provider := Some ''heroku''\<rparr>) (empty_store 1000))) = ''netlify''"
proof -
  have a: "dd_provider (shop_request\<lparr>dd_provider := Some ''heroku''\<rparr>) \<noteq> Some ''vercel''"
    and b: "dd_provider (shop_request\<lparr>dd_provider := Some ''heroku''\<rparr>) \<noteq> Some ''netlify''"
    by simp_all
  have c: "shop_request\<lparr>dd_provider := Some ''heroku'', dd_provider := Some ''netlify''\<rparr> = netlify_request"
    by (simp add: netlify_request_def)
  from unknown_provider_goes_to_netlify [OF a b, of refusing "''alice''" "empty_store 1000"]
  have e: "createDeployment refusing ''alice'' (shop_request\<lparr>dd_provider := Some ''heroku''\<rparr>)
         (empty_store 1000)
       = createDeployment refusing ''alice'' netlify_request (empty_store 1000)"
    unfolding c by blast
  have "r_provider (fst (createDeployment refusing ''alice'' netlify_request (empty_store 1000))) = ''netlify''"
    by (simp add: createDeployment_def netlify_request_def deployToNetlify_def Let_def split_def)
  with e a b show ?thesis by simp
qed

section \<open>A request adds one row\<close>












section \<open>A request without a credential\<close>





section \<open>What the integrations controller stores\<close>

lemma find_replaced:
  assumes "find P xs = Some old" and "P new"
  shows "find P (map (\<lambda>i. if P i then new else i) xs) = Some new"
  using assms by (induction xs) (auto split: if_splits)

lemma find_appended:
  assumes "find P xs = None" and "P new"
  shows "find P (xs @ [new]) = Some new"
  using assms by (induction xs) (auto split: if_splits)

lemma upsert_found:
  "\<exists>i. find_integration uid prov (snd (integration_upsert a uid prov ext tok scps st)) = Some i
       \<and> encryptedToken i = tok"
proof (cases "find_integration uid prov st")
  case None
  then show ?thesis
    by (simp add: integration_upsert_def Let_def find_integration_def tick_def find_appended)
next
  case (Some old)
  then have P: "int_userId old = uid \<and> int_provider old = prov"
    by (auto simp: find_integration_def dest: find_Some_iff [THEN iffD1])
  let ?new = "old\<lparr>encryptedToken := tok, externalId := ext, int_updatedAt := clock st\<rparr>"
  have "find (\<lambda>i. int_userId i = uid \<and> int_provider i = prov)
          (map (\<lambda>i. if int_userId i = uid \<and> int_provider i = prov then ?new else i) (integrations st))
        = Some ?new"
    using Some P by (intro find_replaced) (simp_all add: find_integration_def)
  then show ?thesis using Some
    by (simp add: integration_upsert_def Let_def find_integration_def tick_def)
qed

text \<open>
  C2 fails on the code.  When a token is given, demo mode is off and the provider accepts
  the token, the object stored in the \<^verbatim>\<open>encryptedToken\<close> column of the user's
  integration row has the given token itself as its \<^verbatim>\<open>access_token\<close>; the deployment
  service reads it back from the row and hands it to the provider adapter.
\<close>

theorem token_stored_in_clear:
  assumes "prov = ''vercel'' \<or> prov = ''netlify''"
    and "cd_token connectionData = Some tok" and "tok \<noteq> []" and "\<not> cd_demo connectionData"
    and "(if prov = ''vercel'' then vercel_validateToken env tok
          else netlify_validateToken env tok) = Inr user"
  shows "\<exists>i. find_integration uid prov (snd (connectProvider env prov connectionData uid st)) = Some i
       \<and> access_token (encryptedToken i) = tok \<and> \<not> demo (encryptedToken i)"
proof -
  have g: "token_given connectionData" using assms(2,3) by (simp add: token_given_def)
  obtain st1 where run: "snd (connectProvider env prov connectionData uid st)
       = snd (save_integration env prov connectionData uid (Some user) (ui_id user) st1)"
    using assms g by (auto simp: connectProvider_def Let_def)
  let ?tok = "\<lparr>access_token = str_or (cd_token connectionData) (''demo-'' @ prov @ ''-token''),
             demo = (cd_demo connectionData \<or> \<not> token_given connectionData),
             userInfo = Some user\<rparr>"
  obtain scps where "snd (save_integration env prov connectionData uid (Some user) (ui_id user) st1)
      = snd (integration_upsert (advance env) uid prov (ui_id user) ?tok scps st1)"
    by (simp add: save_integration_def Let_def split_def)
  with upsert_found [of uid prov "advance env" "ui_id user" ?tok scps st1] run
  obtain i where "find_integration uid prov (snd (connectProvider env prov connectionData uid st)) = Some i"
    and "encryptedToken i = ?tok" by auto
  then show ?thesis using assms(2,3,4) g by (auto simp: str_or_def)
qed

theorem token_stored_in_clear_witness:
  "cd_token real_connection = Some ''vcl_live_secret''
   \<and> vercel_validateToken accepting ''vcl_live_secret''
        = Inr \<lparr>ui_id = ''u_1'', ui_email = ''alice@example.org'', ui_name = ''Alice''\<rparr>
   \<and> map (\<lambda>i. access_token (encryptedToken i))
        (integrations (snd (connectProvider accepting ''vercel'' real_connection ''alice'' (empty_store 1000))))
       = [''vcl_live_secret'']
   \<and> calls real_run
       = [VercelValidateToken ''vcl_live_secret'',
          VercelCreateDeployment
            \<lparr>vp_token = ''vcl_live_secret'', vp_repositoryUrl = ''https://github.com/alice/shop'',
             vp_projectName = ''My Shop'', vp_buildCommand = ''npm run build'',
             vp_outputDirectory = ''build'', vp_installCommand = ''npm install''\<rparr>]"
proof -
  have a: "cd_token real_connection = Some ''vcl_live_secret''"
    and d: "\<not> cd_demo real_connection"
    by (simp_all add: real_connection_def)
  have v: "(if ''vercel'' = ''vercel'' then vercel_validateToken accepting ''vcl_live_secret''
          else netlify_validateToken accepting ''vcl_live_secret'')
       = Inr \<lparr>ui_id = ''u_1'', ui_email = ''alice@example.org'', ui_name = ''Alice''\<rparr>"
    by (simp add: accepting_def)
  from token_stored_in_clear [of "''vercel''" real_connection "''vcl_live_secret''" accepting _ "''alice''" "empty_store 1000", OF _ a _ d v]
  obtain i where f: "find_integration ''alice'' ''vercel''
        (snd (connectProvider accepting ''vercel'' real_connection ''alice'' (empty_store 1000))) = Some i"
    and t: "access_token (encryptedToken i) = ''vcl_live_secret''"
    by auto
  have l: "length (integrations (snd (connectProvider accepting ''vercel'' real_connection ''alice'' (empty_store 1000)))) = 1"
    by code_simp
  then obtain x where x: "integrations (snd (connectProvider accepting ''vercel'' real_connection ''alice'' (empty_store 1000))) = [x]"
    by (cases "integrations (snd (connectProvider accepting ''vercel'' real_connection ''alice'' (empty_store 1000)))") auto
  from f x have "i = x" by (auto simp: find_integration_def split: if_splits)
  with t x have m: "map (\<lambda>i. access_token (encryptedToken i))
        (integrations (snd (connectProvider accepting ''vercel'' real_connection ''alice'' (empty_store 1000))))
       = [''vcl_live_secret'']" by simp
  have c: "calls real_run
       = [VercelValidateToken ''vcl_live_secret'',
          VercelCreateDeployment
            \<lparr>vp_token = ''vcl_live_secret'', vp_repositoryUrl = ''https://github.com/alice/shop'',
             vp_projectName = ''My Shop'', vp_buildCommand = ''npm run build'',
             vp_outputDirectory = ''build'', vp_installCommand = ''npm install''\<rparr>]"
    by code_simp
  have v': "vercel_validateToken accepting ''vcl_live_secret''
        = Inr \<lparr>ui_id = ''u_1'', ui_email = ''alice@example.org'', ui_name = ''Alice''\<rparr>"
    by (simp add: accepting_def)
  from a v' m c show ?thesis by blast
qed
end
